theory Spec2Isabelle
  imports Complex_Main "HOL-Library.Sublist"
begin

section \<open>JavaScript values\<close>

text \<open>
  The request payload is whatever \<^verbatim>\<open>request.json()\<close> produced, and the program
  reads it with no static typing (\<^verbatim>\<open>payload: any\<close>). A value is therefore one of
  the JSON shapes, plus \<^verbatim>\<open>undefined\<close>, which is what reading an absent property gives.

  \<^item> \<open>JNum r\<close> is a finite number. Every finite double is a rational, so the rationals
    cover all of them; \<open>JInfinity pos\<close> and \<open>JNaN\<close> are the non-finite ones.
  \<^item> \<open>JStr s\<close> is a string whose code units are below 256, one \<open>char\<close> per code
    unit. Lower-casing and trimming keep such strings in that range.
  \<^item> \<open>JObj kvs\<close> lists the own enumerable properties of an object in the order in
    which \<^verbatim>\<open>Object.keys\<close> enumerates them.
\<close>

datatype jval =
    JUndefined
  | JNull
  | JBool bool
  | JNum rat
  | JInfinity bool
  | JNaN
  | JStr string
  | JArr "jval list"
  | JObj "(string \<times> jval) list"

text \<open>What the platform provides and the repository does not define.\<close>

record host =
  stringify :: "jval \<Rightarrow> string"         \<comment> \<open>\<^verbatim>\<open>JSON.stringify\<close>\<close>
  format_number :: "rat \<Rightarrow> string"      \<comment> \<open>\<^verbatim>\<open>Number.prototype.toString\<close> beyond the safe integers\<close>

subsection \<open>Coercions\<close>

text \<open>\<^verbatim>\<open>!!v\<close>: the falsy values are undefined, null, false, 0, NaN and the empty string.\<close>

fun truthy :: "jval \<Rightarrow> bool" where
  "truthy JUndefined = False"
| "truthy JNull = False"
| "truthy (JBool b) = b"
| "truthy (JNum r) = (r \<noteq> 0)"
| "truthy (JInfinity _) = True"
| "truthy JNaN = False"
| "truthy (JStr s) = (s \<noteq> [])"
| "truthy (JArr _) = True"
| "truthy (JObj _) = True"

text \<open>\<^verbatim>\<open>v == null\<close>, which holds of null and undefined only.\<close>

fun nullish :: "jval \<Rightarrow> bool" where
  "nullish JUndefined = True"
| "nullish JNull = True"
| "nullish _ = False"

text \<open>\<^verbatim>\<open>a || b\<close> and \<^verbatim>\<open>a ?? b\<close>.\<close>

definition js_or :: "jval \<Rightarrow> jval \<Rightarrow> jval" where
  "js_or a b = (if truthy a then a else b)"

definition js_coalesce :: "jval \<Rightarrow> jval \<Rightarrow> jval" where
  "js_coalesce a b = (if nullish a then b else a)"

text \<open>\<^verbatim>\<open>v !== null && typeof v === "object"\<close>: objects and arrays.\<close>

fun is_object :: "jval \<Rightarrow> bool" where
  "is_object (JArr _) = True"
| "is_object (JObj _) = True"
| "is_object _ = False"

subsection \<open>Decimal numerals\<close>

definition digit :: "nat \<Rightarrow> char" where
  "digit d = ''0123456789'' ! d"

fun dec_nat :: "nat \<Rightarrow> string" where
  "dec_nat n = (if n < 10 then [digit n] else dec_nat (n div 10) @ [digit (n mod 10)])"

declare dec_nat.simps [simp del]

definition dec_int :: "int \<Rightarrow> string" where
  "dec_int i = (if i < 0 then CHR ''-'' # dec_nat (nat (- i)) else dec_nat (nat i))"

text \<open>\<^verbatim>\<open>Number.isInteger\<close> on a finite number.\<close>

definition is_integer :: "rat \<Rightarrow> bool" where
  "is_integer r = (of_int \<lfloor>r\<rfloor> = r)"

text \<open>
  \<^verbatim>\<open>String(n)\<close> for a finite number: an integer of magnitude at most \<open>2^53\<close> prints as
  its decimal digits; anything else goes through the platform's formatting.
\<close>

definition number_to_string :: "host \<Rightarrow> rat \<Rightarrow> string" where
  "number_to_string h r =
     (if is_integer r \<and> \<bar>r\<bar> \<le> 9007199254740992 then dec_int \<lfloor>r\<rfloor> else format_number h r)"

subsection \<open>Strings\<close>

text \<open>\<^verbatim>\<open>xs.join(sep)\<close> on an array of strings.\<close>

fun join :: "string \<Rightarrow> string list \<Rightarrow> string" where
  "join sep [] = []"
| "join sep [x] = x"
| "join sep (x # y # ys) = x @ sep @ join sep (y # ys)"

text \<open>
  The white space and line terminators that \<^verbatim>\<open>String.prototype.trim\<close> strips, among
  the code units below 256: TAB, LF, VT, FF, CR, SPACE and NO-BREAK SPACE.
\<close>

definition is_space :: "char \<Rightarrow> bool" where
  "is_space c = (of_char c \<in> {9, 10, 11, 12, 13, 32, 160 :: nat})"

definition trim :: "string \<Rightarrow> string" where
  "trim s = rev (dropWhile is_space (rev (dropWhile is_space s)))"

text \<open>
  \<^verbatim>\<open>String.prototype.toLowerCase\<close> on code units below 256: A to Z, and the Latin-1
  capitals U+00C0 to U+00DE except the multiplication sign U+00D7, move up by 32.
\<close>

definition lower_char :: "char \<Rightarrow> char" where
  "lower_char c =
     (let n = (of_char c :: nat)
      in if (65 \<le> n \<and> n \<le> 90) \<or> (192 \<le> n \<and> n \<le> 222 \<and> n \<noteq> 215)
         then char_of (n + 32) else c)"

definition toLowerCase :: "string \<Rightarrow> string" where
  "toLowerCase s = map lower_char s"

text \<open>\<^verbatim>\<open>s.includes(t)\<close>: \<open>t\<close> occurs in \<open>s\<close> as a contiguous run.\<close>

fun str_includes :: "string \<Rightarrow> string \<Rightarrow> bool" where
  "str_includes [] t = (t = [])"
| "str_includes (c # s) t = (prefix t (c # s) \<or> str_includes s t)"

text \<open>\<^verbatim>\<open>s.split(sep)\<close> for a one-character separator.\<close>

fun split :: "char \<Rightarrow> string \<Rightarrow> string list" where
  "split sep [] = [] # []"
| "split sep (c # s) =
     (if c = sep then [] # split sep s
      else (case split sep s of [] \<Rightarrow> (c # []) # [] | p # ps \<Rightarrow> (c # p) # ps))"

subsection \<open>Properties\<close>

text \<open>
  The own enumerable string-keyed properties of a value that is neither null nor
  undefined: the entries of an object, the elements of an array and the characters of a
  string under their decimal indices, nothing for a number or a boolean.
\<close>

fun own_entries :: "jval \<Rightarrow> (string \<times> jval) list" where
  "own_entries (JObj kvs) = kvs"
| "own_entries (JArr xs) = zip (map dec_nat [0..<length xs]) xs"
| "own_entries (JStr s) = zip (map dec_nat [0..<length s]) (map (\<lambda>c. JStr [c]) s)"
| "own_entries _ = []"

text \<open>\<^verbatim>\<open>Object.keys(v)\<close>.\<close>

definition keys :: "jval \<Rightarrow> string list" where
  "keys v = map fst (own_entries v)"

text \<open>
  \<^verbatim>\<open>v[k]\<close> for a value that is neither null nor undefined. Besides the own properties
  only \<^verbatim>\<open>length\<close> of arrays and strings is modelled: the program reads no other
  inherited property as a value.
\<close>

definition field :: "jval \<Rightarrow> string \<Rightarrow> jval" where
  "field v k =
     (case map_of (own_entries v) k of
        Some x \<Rightarrow> x
      | None \<Rightarrow>
          (case v of
             JArr xs \<Rightarrow> if k = ''length'' then JNum (of_nat (length xs)) else JUndefined
           | JStr s \<Rightarrow> if k = ''length'' then JNum (of_nat (length s)) else JUndefined
           | _ \<Rightarrow> JUndefined))"

text \<open>\<^verbatim>\<open>obj[k] = x\<close> on an object that already has the key: the key keeps its place.\<close>

fun assign :: "string \<Rightarrow> jval \<Rightarrow> (string \<times> jval) list \<Rightarrow> (string \<times> jval) list" where
  "assign k x [] = []"
| "assign k x ((k', y) # kvs) = (if k' = k then (k, x) # kvs else (k', y) # assign k x kvs)"

text \<open>The message of the TypeError that reading a property of null or undefined throws.\<close>

definition cannot_read :: "jval \<Rightarrow> string \<Rightarrow> string" where
  "cannot_read v k =
     ''Cannot read properties of '' @ (if v = JNull then ''null'' else ''undefined'')
       @ '' (reading '' @ [CHR 0x27] @ k @ [CHR 0x27] @ '')''"

text \<open>
  \<^verbatim>\<open>String(v)\<close>, as a template literal applies it: an array joins its elements with
  commas, null and undefined elements printing as nothing.
\<close>

fun to_string :: "host \<Rightarrow> jval \<Rightarrow> string" where
  "to_string h JUndefined = ''undefined''"
| "to_string h JNull = ''null''"
| "to_string h (JBool b) = (if b then ''true'' else ''false'')"
| "to_string h (JNum r) = number_to_string h r"
| "to_string h (JInfinity pos) = (if pos then ''Infinity'' else ''-Infinity'')"
| "to_string h JNaN = ''NaN''"
| "to_string h (JStr s) = s"
| "to_string h (JArr xs) = join '','' (map (\<lambda>x. if nullish x then [] else to_string h x) xs)"
| "to_string h (JObj kvs) = ''[object Object]''"

section \<open>The store and the outside world\<close>

text \<open>
  The database binding \<^verbatim>\<open>env.DB\<close> is external. A statement is the SQL text handed to
  \<^verbatim>\<open>prepare\<close> together with the values handed to \<^verbatim>\<open>bind\<close>; both only build the
  statement, which is submitted with \<^verbatim>\<open>run\<close>, \<^verbatim>\<open>all\<close> or \<^verbatim>\<open>batch\<close>. A store that refuses
  a value already when it is bound counts as a store that answers the submitted statement
  with that error: everywhere in the program \<^verbatim>\<open>bind\<close> stands in the same \<^verbatim>\<open>try\<close> block as
  the call that submits its statement, so the handler cannot tell the two apart.
\<close>

record stmt =
  sql :: string
  binds :: "jval list"

definition prepare :: "string \<Rightarrow> stmt" where
  "prepare q = \<lparr>sql = q, binds = []\<rparr>"

definition bind :: "stmt \<Rightarrow> jval list \<Rightarrow> stmt" where
  "bind s vs = s\<lparr>binds := vs\<rparr>"

datatype dbcall = CallRun stmt | CallAll stmt | CallBatch "stmt list"

text \<open>The result object of the store, with the three properties the program reads.\<close>

record d1_result =
  results :: jval
  meta :: jval
  changes :: jval

text \<open>
  A store answers a call with a result or by throwing an error, of which the program
  only ever reads the message (\<open>Inl\<close>). Its answer may depend on every call made
  before, which is the first argument.
\<close>

record store =
  db_run :: "dbcall list \<Rightarrow> stmt \<Rightarrow> string + d1_result"
  db_all :: "dbcall list \<Rightarrow> stmt \<Rightarrow> string + d1_result"
  db_batch :: "dbcall list \<Rightarrow> stmt list \<Rightarrow> string + d1_result list"

text \<open>
  What a request leaves behind: the statements submitted to the store, in order, the
  lines written with \<^verbatim>\<open>console.error\<close>, and how often \<^verbatim>\<open>waitUntil\<close> was invoked (it is
  taken to return normally).
\<close>

record world =
  calls :: "dbcall list"
  console :: "string list"
  deferred :: nat

definition run :: "store \<Rightarrow> stmt \<Rightarrow> world \<Rightarrow> (string + d1_result) \<times> world" where
  "run db s w = (db_run db (calls w) s, w\<lparr>calls := calls w @ [CallRun s]\<rparr>)"

definition all :: "store \<Rightarrow> stmt \<Rightarrow> world \<Rightarrow> (string + d1_result) \<times> world" where
  "all db s w = (db_all db (calls w) s, w\<lparr>calls := calls w @ [CallAll s]\<rparr>)"

definition batch :: "store \<Rightarrow> stmt list \<Rightarrow> world \<Rightarrow> (string + d1_result list) \<times> world" where
  "batch db ss w = (db_batch db (calls w) ss, w\<lparr>calls := calls w @ [CallBatch ss]\<rparr>)"

definition errDelegate :: "string \<Rightarrow> world \<Rightarrow> world" where
  "errDelegate msg w = w\<lparr>console := console w @ [msg], deferred := Suc (deferred w)\<rparr>"

section \<open>Globals and table helpers\<close>

definition allowedColumns :: "string list" where
  "allowedColumns =
     [''id'', ''c1'', ''c2'', ''c3'', ''i1'', ''i2'', ''i3'', ''d1'', ''d2'', ''d3'',
      ''t1'', ''t2'', ''t3'', ''v1'', ''v2'', ''v3'']"

definition allowedQueryOptions :: "string list" where
  "allowedQueryOptions = [''minId'', ''offset'', ''order'', ''orderby'', ''limit'', ''table_name'']"

definition DB_DA_SYSTEM_TABLENAME :: string where
  "DB_DA_SYSTEM_TABLENAME = ''__DA_SYSTEM_CONFIG''"

definition C_SERVICE :: string where
  "C_SERVICE = ''da-cloud-cfd1-rack''"

definition G_INSTANCE :: string where
  "G_INSTANCE = ''default''"

definition FORBIDDEN_TABLES :: "string list" where
  "FORBIDDEN_TABLES = [''sqlite_master'', ''sqlite_schema'', ''sqlite_temp_master'', ''sqlite_sequence'']"

text \<open>\<^verbatim>\<open>allowedColumns.includes(v)\<close> compares strictly, so only a string can be found.\<close>

definition is_column :: "jval \<Rightarrow> bool" where
  "is_column v = (case v of JStr c \<Rightarrow> c \<in> set allowedColumns | _ \<Rightarrow> False)"

text \<open>
  \<^verbatim>\<open>normalizeJsonColumns\<close> overwrites each of t1, t2, t3 that holds an object or an
  array with its JSON text. Only a plain object can hold such a property; the caller
  has to make sure the argument is neither null nor undefined.
\<close>

definition normalize_column :: "host \<Rightarrow> jval \<Rightarrow> string \<Rightarrow> jval" where
  "normalize_column h obj k =
     (if is_object (field obj k)
      then (case obj of
              JObj kvs \<Rightarrow> JObj (assign k (JStr (stringify h (field obj k))) kvs)
            | _ \<Rightarrow> obj)
      else obj)"

definition normalizeJsonColumns :: "host \<Rightarrow> jval \<Rightarrow> jval" where
  "normalizeJsonColumns h obj = foldl (normalize_column h) obj [''t1'', ''t2'', ''t3'']"

text \<open>
  \<^verbatim>\<open>resolveTableName\<close>: \<open>Inr None\<close> is the \<^verbatim>\<open>null\<close> it returns. The optional call
  \<^verbatim>\<open>payload.table_name?.trim()\<close> skips a null or undefined table name only; any other
  value that is not a string has no \<^verbatim>\<open>trim\<close> method, and reading \<^verbatim>\<open>table_name\<close> off a
  null or undefined payload throws as well.
\<close>

definition resolveTableName :: "jval \<Rightarrow> string + string option" where
  "resolveTableName payload =
     (if nullish payload then Inl (cannot_read payload ''table_name'')
      else (case field payload ''table_name'' of
              JUndefined \<Rightarrow> Inr None
            | JNull \<Rightarrow> Inr None
            | JStr s \<Rightarrow>
                (if trim s = [] then Inr None
                 else if trim s \<in> set FORBIDDEN_TABLES then Inr None
                 else Inr (Some (trim s)))
            | _ \<Rightarrow> Inl ''payload.table_name?.trim is not a function''))"

section \<open>Operators\<close>

definition newline :: string where
  "newline = [CHR 0x0A]"

definition quote :: string where
  "quote = [CHR 0x27]"

definition tableSql :: "string \<Rightarrow> bool \<Rightarrow> string" where
  "tableSql tableName c1Unique =
     join newline
       ['''',
        ''    CREATE TABLE IF NOT EXISTS '' @ tableName @ '' ('',
        ''      id INTEGER PRIMARY KEY AUTOINCREMENT,'',
        ''      c1 VARCHAR(255) '' @ (if c1Unique then ''UNIQUE'' else '''') @ '','',
        ''      c2 VARCHAR(255), c3 VARCHAR(255),'',
        ''      i1 INT, i2 INT, i3 INT,'',
        ''      d1 DOUBLE, d2 DOUBLE, d3 DOUBLE,'',
        ''      t1 TEXT, t2 TEXT, t3 TEXT,'',
        ''      v1 TIMESTAMP DEFAULT CURRENT_TIMESTAMP,'',
        ''      v2 TIMESTAMP DEFAULT CURRENT_TIMESTAMP,'',
        ''      v3 TIMESTAMP DEFAULT CURRENT_TIMESTAMP'',
        ''    );'',
        ''  '']"

text \<open>The statements \<^verbatim>\<open>daCreateTable\<close> collects before it hands them to \<^verbatim>\<open>db.batch\<close>.\<close>

definition createTableStatements :: "string \<Rightarrow> bool \<Rightarrow> stmt list" where
  "createTableStatements tableName c1Unique =
     [prepare (tableSql tableName c1Unique)]
     @ (if \<not> c1Unique
        then [prepare (''CREATE INDEX IF NOT EXISTS idx_'' @ tableName @ ''_c1 ON '' @ tableName @ ''(c1)'')]
        else [])
     @ [prepare (''CREATE INDEX IF NOT EXISTS idx_'' @ tableName @ ''_v2 ON '' @ tableName @ ''(v2)'')]"

definition daCreateTable :: "store \<Rightarrow> string \<Rightarrow> bool \<Rightarrow> world \<Rightarrow> (string + d1_result list) \<times> world" where
  "daCreateTable db tableName c1Unique w = batch db (createTableStatements tableName c1Unique) w"

definition versionInsert :: "string \<Rightarrow> string" where
  "versionInsert tableName =
     join newline
       ['''',
        ''    INSERT OR IGNORE INTO '' @ tableName @ '' (id, c1, c2, i1, d1)'',
        ''    VALUES (1, '' @ quote @ ''___basic_db_version'' @ quote @ '', ?, ?, ?);'',
        ''  '']"

definition systemReserveInsert :: "string \<Rightarrow> string" where
  "systemReserveInsert tableName =
     join newline
       ['''',
        ''    INSERT OR IGNORE INTO '' @ tableName @ '' (id, c1) VALUES (100, ''
          @ quote @ ''___systemReserve'' @ quote @ '');'',
        ''  '']"

text \<open>
  \<^verbatim>\<open>daSystemTableInit\<close>. After the table is created the function builds the two inserts
  and, to bind the first, reads \<^verbatim>\<open>DB_VERSION\<close>. No file of the repository declares that
  name, so the read throws a ReferenceError before \<^verbatim>\<open>db.batch\<close> is called: the second
  batch is never submitted, and the value of \<^verbatim>\<open>crypto.randomUUID()\<close> is never used.
\<close>

definition daSystemTableInit :: "store \<Rightarrow> world \<Rightarrow> (string + d1_result list) \<times> world" where
  "daSystemTableInit db w =
     (let tableName = DB_DA_SYSTEM_TABLENAME
      in case daCreateTable db tableName True w of
           (Inl e, w') \<Rightarrow> (Inl e, w')
         | (Inr _, w') \<Rightarrow> (Inl ''DB_VERSION is not defined'', w'))"

section \<open>Core API\<close>

text \<open>
  A step of the handler ends in a world and either a value (\<open>Inr\<close>) or a thrown error,
  of which only the message is kept (\<open>Inl\<close>).
\<close>

type_synonym 'a step = "(string + 'a) \<times> world"

definition error_obj :: "string \<Rightarrow> jval" where
  "error_obj msg = JObj [(''error'', JStr msg)]"

subsection \<open>The cases of the switch\<close>

definition case_init_system :: "store \<Rightarrow> world \<Rightarrow> jval step" where
  "case_init_system db w =
     (case daSystemTableInit db w of
        (Inl e, w') \<Rightarrow> (Inl e, w')
      | (Inr _, w') \<Rightarrow>
          (Inr (JObj [(''success'', JBool True),
                      (''message'', JStr ''System table and reserved records initialized.'')]), w'))"

text \<open>
  In \<^verbatim>\<open>exec\<close> a truthy query that is not a string has no \<^verbatim>\<open>toLowerCase\<close>; that
  TypeError is thrown outside the inner \<^verbatim>\<open>try\<close>. The statement is prepared from the
  query as given, not from its lower-cased copy.
\<close>

definition case_exec :: "store \<Rightarrow> jval \<Rightarrow> world \<Rightarrow> jval step" where
  "case_exec db payload w =
     (let query = field payload ''query'';
          params = field payload ''params''
      in if \<not> truthy query then (Inr (error_obj ''Missing SQL query''), w)
         else (case query of
                 JStr q \<Rightarrow>
                   (let lowerQuery = trim (toLowerCase q)
                    in if str_includes lowerQuery ''sqlite_master'' \<or> str_includes lowerQuery ''_cf_''
                       then (Inr (error_obj ''Access to system tables via EXEC is forbidden.''), w)
                       else (let stmt = prepare q
                             in case (case params of
                                        JArr ps \<Rightarrow> all db (bind stmt ps) w
                                      | _ \<Rightarrow> all db stmt w) of
                                  (Inl e, w') \<Rightarrow> (Inr (error_obj (''SQL Execution Error: '' @ e)), w')
                                | (Inr result, w') \<Rightarrow>
                                    (Inr (JObj [(''success'', JBool True),
                                                (''results'', js_or (results result) (JArr [])),
                                                (''meta'', meta result)]), w')))
               | _ \<Rightarrow> (Inl ''query.toLowerCase is not a function'', w)))"

definition case_create_table :: "store \<Rightarrow> string \<Rightarrow> jval \<Rightarrow> world \<Rightarrow> jval step" where
  "case_create_table db tableName payload w =
     (let c1Unique = truthy (field payload ''c1_unique'')
      in case daCreateTable db tableName c1Unique w of
           (Inl e, w') \<Rightarrow> (Inl e, w')
         | (Inr _, w') \<Rightarrow> (Inr (JObj [(''message'', JStr (''Table '' @ tableName @ '' ready.''))]), w'))"

definition listTablesSql :: string where
  "listTablesSql =
     join newline
       ['''',
        ''          SELECT name FROM sqlite_master'',
        ''          WHERE type='' @ quote @ ''table'' @ quote @ '' AND name NOT LIKE '' @ quote @ ''sqlite_%''
          @ quote @ '' AND name NOT LIKE '' @ quote @ ''_cf_%'' @ quote,
        ''        '']"

text \<open>
  \<^verbatim>\<open>results.length\<close> and \<^verbatim>\<open>results.map(r => r.name)\<close>: both need \<^verbatim>\<open>results\<close> to be
  an array, and the callback needs every row to be neither null nor undefined.
\<close>

definition case_list_tables :: "store \<Rightarrow> world \<Rightarrow> jval step" where
  "case_list_tables db w =
     (case all db (prepare listTablesSql) w of
        (Inl e, w') \<Rightarrow> (Inl e, w')
      | (Inr result, w') \<Rightarrow>
          (case results result of
             JArr rows \<Rightarrow>
               (case find nullish rows of
                  Some r \<Rightarrow> (Inl (cannot_read r ''name''), w')
                | None \<Rightarrow>
                    (Inr (JObj [(''count'', JNum (of_nat (length rows))),
                                (''tables'', JArr (map (\<lambda>r. field r ''name'') rows))]), w'))
           | JUndefined \<Rightarrow> (Inl (cannot_read JUndefined ''length''), w')
           | JNull \<Rightarrow> (Inl (cannot_read JNull ''length''), w')
           | _ \<Rightarrow> (Inl ''results.map is not a function'', w')))"

text \<open>
  The callback of \<^verbatim>\<open>records.map\<close> in \<^verbatim>\<open>batch_post\<close>, for one record. It throws on a
  null record, where \<^verbatim>\<open>normalizeJsonColumns\<close> reads \<^verbatim>\<open>obj["t1"]\<close>.
\<close>

definition insertStatement :: "host \<Rightarrow> string \<Rightarrow> jval \<Rightarrow> string + stmt" where
  "insertStatement h tableName rec =
     (if nullish rec then Inl (cannot_read rec ''t1'')
      else (let rec' = normalizeJsonColumns h rec;
                ks = filter (\<lambda>k. k \<in> set allowedColumns) (keys rec');
                placeholders = join '','' (map (\<lambda>_. ''?'') ks);
                q = ''INSERT INTO '' @ tableName @ '' ('' @ join '','' ks @ '') VALUES ('' @ placeholders @ '')'';
                vals = map (field rec') ks
            in Inr (bind (prepare q) vals)))"

text \<open>\<^verbatim>\<open>xs.map(f)\<close> for a callback that may throw: the first throw ends the loop.\<close>

fun map_throwing :: "('a \<Rightarrow> string + 'b) \<Rightarrow> 'a list \<Rightarrow> string + 'b list" where
  "map_throwing f [] = Inr []"
| "map_throwing f (x # xs) =
     (case f x of
        Inl e \<Rightarrow> Inl e
      | Inr y \<Rightarrow> (case map_throwing f xs of Inl e \<Rightarrow> Inl e | Inr ys \<Rightarrow> Inr (y # ys)))"

definition case_batch_post :: "host \<Rightarrow> store \<Rightarrow> string \<Rightarrow> jval \<Rightarrow> world \<Rightarrow> jval step" where
  "case_batch_post h db tableName payload w =
     (case field payload ''data'' of
        JArr records \<Rightarrow>
          (case map_throwing (insertStatement h tableName) records of
             Inl e \<Rightarrow> (Inl e, w)
           | Inr statements \<Rightarrow>
               (case batch db statements w of
                  (Inl e, w') \<Rightarrow> (Inl e, w')
                | (Inr rs, w') \<Rightarrow> (Inr (JObj [(''inserted'', JNum (of_nat (length rs)))]), w')))
      | _ \<Rightarrow> (Inr (error_obj (''Payload '' @ quote @ ''data'' @ quote @ '' must be an array'')), w))"

definition case_drop_table :: "store \<Rightarrow> string \<Rightarrow> world \<Rightarrow> jval step" where
  "case_drop_table db tableName w =
     (case run db (prepare (''DROP TABLE IF EXISTS '' @ tableName)) w of
        (Inl e, w') \<Rightarrow> (Inl e, w')
      | (Inr _, w') \<Rightarrow>
          (Inr (JObj [(''message'', JStr (''Table '' @ tableName @ '' has been deleted.''))]), w'))"

definition case_create_index :: "host \<Rightarrow> store \<Rightarrow> string \<Rightarrow> jval \<Rightarrow> world \<Rightarrow> jval step" where
  "case_create_index h db tableName payload w =
     (let col = field payload ''column''
      in if \<not> truthy col \<or> \<not> is_column col
         then (Inr (error_obj (''Invalid column: '' @ to_string h col)), w)
         else (let indexName = ''idx_'' @ tableName @ ''_'' @ to_string h col;
                   uniqueStr = (if truthy (field payload ''unique'') then ''UNIQUE'' else '''');
                   q = ''CREATE '' @ uniqueStr @ '' INDEX IF NOT EXISTS '' @ indexName @ '' ON ''
                       @ tableName @ '' ('' @ to_string h col @ '')''
               in case run db (prepare q) w of
                    (Inl e, w') \<Rightarrow> (Inl e, w')
                  | (Inr _, w') \<Rightarrow>
                      (Inr (JObj [(''message'', JStr (''Index '' @ indexName @ '' created.''))]), w')))"

definition case_list_indices :: "store \<Rightarrow> string \<Rightarrow> world \<Rightarrow> jval step" where
  "case_list_indices db tableName w =
     (case all db (prepare (''PRAGMA index_list('' @ tableName @ '')'')) w of
        (Inl e, w') \<Rightarrow> (Inl e, w')
      | (Inr result, w') \<Rightarrow> (Inr (JObj [(''indices'', results result)]), w'))"

definition case_drop_index :: "host \<Rightarrow> store \<Rightarrow> string \<Rightarrow> jval \<Rightarrow> world \<Rightarrow> jval step" where
  "case_drop_index h db tableName payload w =
     (let col = field payload ''column''
      in if \<not> truthy col then (Inr (error_obj ''Missing column''), w)
         else (let indexName = ''idx_'' @ tableName @ ''_'' @ to_string h col
               in case run db (prepare (''DROP INDEX IF EXISTS '' @ indexName)) w of
                    (Inl e, w') \<Rightarrow> (Inl e, w')
                  | (Inr _, w') \<Rightarrow>
                      (Inr (JObj [(''message'', JStr (''Index '' @ indexName @ '' dropped.''))]), w')))"

definition case_post :: "host \<Rightarrow> store \<Rightarrow> string \<Rightarrow> jval \<Rightarrow> world \<Rightarrow> jval step" where
  "case_post h db tableName payload w =
     (let payload' = normalizeJsonColumns h payload;
          ks = filter (\<lambda>k. k \<noteq> ''table_name'') (keys payload');
          invalidKeys = filter (\<lambda>k. k \<notin> set allowedColumns) ks
      in if invalidKeys \<noteq> [] then (Inr (error_obj (''Invalid columns: '' @ join '', '' invalidKeys)), w)
         else (let placeholders = join '','' (map (\<lambda>_. ''?'') ks);
                   q = ''INSERT INTO '' @ tableName @ '' ('' @ join '','' ks @ '') VALUES ('' @ placeholders @ '')'';
                   vals = map (field payload') ks
               in case run db (bind (prepare q) vals) w of
                    (Inl e, w') \<Rightarrow> (Inl e, w')
                  | (Inr _, w') \<Rightarrow> (Inr JNull, w')))"

text \<open>
  The statement of \<^verbatim>\<open>put\<close>: \<open>keysPut\<close> are the keys to set, \<open>hasId\<close> chooses the
  column of the WHERE clause, and the value of that column is bound last.
\<close>

definition putStatement :: "string \<Rightarrow> jval \<Rightarrow> bool \<Rightarrow> string list \<Rightarrow> stmt" where
  "putStatement tableName payload hasId keysPut =
     (let whereClause = (if hasId then ''id = ?'' else ''c1 = ?'');
          whereValue = (if hasId then field payload ''id'' else field payload ''c1'')
      in if keysPut = []
         then bind (prepare (''UPDATE '' @ tableName @ '' SET v2 = CURRENT_TIMESTAMP WHERE '' @ whereClause))
                [whereValue]
         else (let setClause = join '', '' (map (\<lambda>k. k @ '' = ?'') keysPut)
               in bind (prepare (''UPDATE '' @ tableName @ '' SET '' @ setClause
                                  @ '', v2 = CURRENT_TIMESTAMP WHERE '' @ whereClause))
                    (map (field payload) keysPut @ [whereValue])))"

definition case_put :: "host \<Rightarrow> store \<Rightarrow> string \<Rightarrow> jval \<Rightarrow> world \<Rightarrow> jval step" where
  "case_put h db tableName payload w =
     (let hasId = \<not> nullish (field payload ''id'');
          hasC1 = \<not> nullish (field payload ''c1'')
      in if \<not> hasId \<and> \<not> hasC1
         then (Inr (error_obj (''Missing '' @ quote @ ''id'' @ quote @ '' or '' @ quote @ ''c1'' @ quote
                               @ '' for update'')), w)
         else (let payload' = normalizeJsonColumns h payload;
                   keysPut = filter (\<lambda>k. k \<notin> set [''table_name'', ''id'', ''c1'']) (keys payload');
                   invalidKeys = filter (\<lambda>k. k \<notin> set allowedColumns) keysPut
               in if invalidKeys \<noteq> []
                  then (Inr (error_obj (''Invalid columns: '' @ join '', '' invalidKeys)), w)
                  else (case run db (putStatement tableName payload' hasId keysPut) w of
                          (Inl e, w') \<Rightarrow> (Inl e, w')
                        | (Inr result, w') \<Rightarrow>
                            if changes result = JNum 0
                            then (Inr (error_obj ''Record not found or no rows updated''), w')
                            else (Inr (JObj [(''updated'', changes result)]), w'))))"

definition case_update_c1 :: "store \<Rightarrow> string \<Rightarrow> jval \<Rightarrow> world \<Rightarrow> jval step" where
  "case_update_c1 db tableName payload w =
     (if \<not> truthy (field payload ''id'') \<or> \<not> truthy (field payload ''new_c1'')
      then (Inr (error_obj ''Missing id or new_c1''), w)
      else (let q = ''UPDATE '' @ tableName @ '' SET c1 = ?, v2 = CURRENT_TIMESTAMP WHERE id = ?''
            in case run db (bind (prepare q) [field payload ''new_c1'', field payload ''id'']) w of
                 (Inr result, w') \<Rightarrow>
                   if changes result = JNum 0 then (Inr (error_obj ''Record not found''), w')
                   else (Inr (JObj [(''renamed'', JBool True)]), w')
               | (Inl e, w') \<Rightarrow>
                   if str_includes e ''UNIQUE'' then (Inr (error_obj ''c1 already exists''), w')
                   else (Inl e, w')))"

text \<open>
  The row limit of \<^verbatim>\<open>get\<close>:
  \<^verbatim>\<open>Number.isInteger(options.limit) && options.limit > 0 ? Math.min(options.limit, 500) : 100\<close>.
\<close>

definition limit_of :: "jval \<Rightarrow> rat" where
  "limit_of v = (case v of JNum r \<Rightarrow> if is_integer r \<and> 0 < r then min r 500 else 100 | _ \<Rightarrow> 100)"

text \<open>
  The statement of \<^verbatim>\<open>get\<close>, from the options (the payload without \<^verbatim>\<open>table_name\<close>) and
  the keys that are column filters, once the early returns are behind.
\<close>

definition getStatement :: "host \<Rightarrow> string \<Rightarrow> jval \<Rightarrow> string list \<Rightarrow> stmt" where
  "getStatement h tableName options columnFilters =
     (let order = (if field options ''order'' = JStr ''desc'' then ''DESC'' else ''ASC'');
          orderBy = (if is_column (field options ''orderby'') then to_string h (field options ''orderby'')
                     else ''id'');
          bound = orderBy @ '' '' @ (if order = ''ASC'' then ''>'' else ''<'') @ '' ?'';
          conditions = map (\<lambda>k. k @ '' = ?'') columnFilters
                       @ (if \<not> nullish (field options ''offset'') then [bound]
                          else if \<not> nullish (field options ''minId'') then [bound] else []);
          params = map (field options) columnFilters
                   @ (if \<not> nullish (field options ''offset'') then [field options ''offset'']
                      else if \<not> nullish (field options ''minId'') then [field options ''minId''] else []);
          limit = limit_of (field options ''limit'')
      in bind (prepare (''SELECT * FROM '' @ tableName
                         @ (if conditions \<noteq> [] then '' WHERE '' @ join '' AND '' conditions else '''')
                         @ '' ORDER BY '' @ orderBy @ '' '' @ order
                         @ '' LIMIT '' @ number_to_string h limit))
           params)"

definition case_get :: "host \<Rightarrow> store \<Rightarrow> string \<Rightarrow> jval \<Rightarrow> world \<Rightarrow> jval step" where
  "case_get h db tableName payload w =
     (let options = JObj (filter (\<lambda>(k, v). k \<noteq> ''table_name'') (own_entries payload));
          columnFilters = filter (\<lambda>k. k \<notin> set allowedQueryOptions) (keys options)
      in case find (\<lambda>k. k \<notin> set allowedColumns) columnFilters of
           Some k \<Rightarrow> (Inr (error_obj (''Invalid column: '' @ k)), w)
         | None \<Rightarrow>
             if \<not> nullish (field options ''minId'') \<and> \<not> nullish (field options ''offset'')
             then (Inr (error_obj ''Cannot use both minId and offset''), w)
             else (case all db (getStatement h tableName options columnFilters) w of
                     (Inl e, w') \<Rightarrow> (Inl e, w')
                   | (Inr result, w') \<Rightarrow>
                       (Inr (JObj [(''rows'', js_or (results result) (JArr []))]), w')))"

definition case_delete :: "store \<Rightarrow> string \<Rightarrow> jval \<Rightarrow> world \<Rightarrow> jval step" where
  "case_delete db tableName payload w =
     (let ks = filter (\<lambda>k. k \<noteq> ''table_name'') (keys payload);
          invalidKeys = filter (\<lambda>k. k \<notin> set allowedColumns) ks
      in if invalidKeys \<noteq> [] then (Inr (error_obj (''Invalid columns: '' @ join '', '' invalidKeys)), w)
         else (let q = (if ks = [] then ''DELETE FROM '' @ tableName
                        else ''DELETE FROM '' @ tableName @ '' WHERE ''
                             @ join '' AND '' (map (\<lambda>k. k @ '' = ?'') ks));
                   vals = (if ks = [] then [] else map (field payload) ks);
                   w1 = (if ks = [] then errDelegate (''DELETE ALL from '' @ tableName) w else w)
               in case run db (bind (prepare q) vals) w1 of
                    (Inl e, w') \<Rightarrow> (Inl e, w')
                  | (Inr result, w') \<Rightarrow>
                      (Inr (JObj [(''deleted'', js_coalesce (changes result) (JNum 0))]), w')))"

subsection \<open>The dispatcher\<close>

text \<open>The \<^verbatim>\<open>switch\<close>, which compares the action strictly with each label in turn.\<close>

definition switch_action :: "host \<Rightarrow> store \<Rightarrow> jval \<Rightarrow> string \<Rightarrow> jval \<Rightarrow> world \<Rightarrow> jval step" where
  "switch_action h db action tableName payload w =
     (if action = JStr ''init_system'' then case_init_system db w
      else if action = JStr ''exec'' then case_exec db payload w
      else if action = JStr ''create_table'' then case_create_table db tableName payload w
      else if action = JStr ''list_tables'' then case_list_tables db w
      else if action = JStr ''batch_post'' then case_batch_post h db tableName payload w
      else if action = JStr ''drop_table'' then case_drop_table db tableName w
      else if action = JStr ''create_index'' then case_create_index h db tableName payload w
      else if action = JStr ''list_indices'' then case_list_indices db tableName w
      else if action = JStr ''drop_index'' then case_drop_index h db tableName payload w
      else if action = JStr ''post'' then case_post h db tableName payload w
      else if action = JStr ''put'' then case_put h db tableName payload w
      else if action = JStr ''update_c1'' then case_update_c1 db tableName payload w
      else if action = JStr ''get'' then case_get h db tableName payload w
      else if action = JStr ''delete'' then case_delete db tableName payload w
      else (Inr (error_obj (''Unknown action: '' @ to_string h action)), w))"

text \<open>
  \<^verbatim>\<open>handleApiRequest\<close>. The table name is resolved before the \<^verbatim>\<open>try\<close>, so what
  \<^verbatim>\<open>resolveTableName\<close> throws leaves the function (\<open>Inl\<close>); what the switch throws is
  caught, reported and turned into an error object.
\<close>

definition handleApiRequest :: "host \<Rightarrow> store \<Rightarrow> jval \<Rightarrow> jval \<Rightarrow> world \<Rightarrow> jval step" where
  "handleApiRequest h db action payload w =
     (case resolveTableName payload of
        Inl e \<Rightarrow> (Inl e, w)
      | Inr None \<Rightarrow>
          (Inr (error_obj ''Invalid or missing table_name''),
           errDelegate ''Invalid or missing table_name'' w)
      | Inr (Some tableName) \<Rightarrow>
          (case switch_action h db action tableName payload w of
             (Inr ret, w') \<Rightarrow> (Inr ret, w')
           | (Inl e, w') \<Rightarrow> (Inr (error_obj e), errDelegate (''DB operation failed: '' @ e) w')))"

section \<open>HTTP wrapper\<close>

text \<open>
  Of a request the wrapper reads the method, the \<^verbatim>\<open>Authorization\<close> header (\<open>None\<close>
  when \<^verbatim>\<open>headers.get\<close> returns null) and the body as \<^verbatim>\<open>request.json()\<close> parses it
  (\<open>None\<close> when that throws). A response keeps the object that \<^verbatim>\<open>jsonResponse\<close>
  serialises rather than its text.
\<close>

record request =
  http_method :: string
  authorization :: "string option"
  json :: "jval option"

record env =
  DA_INSTANCEID :: "string option"
  DA_WRITE_TOKEN :: "string option"
  DB :: store

datatype content = Text string | Json jval

record response =
  status :: nat
  content_type :: "string option"
  content :: content

definition jsonResponse :: "jval \<Rightarrow> nat \<Rightarrow> response" where
  "jsonResponse obj st = \<lparr>status = st, content_type = Some ''application/json'', content = Json obj\<rparr>"

definition ack :: "jval \<Rightarrow> string \<Rightarrow> jval \<Rightarrow> response" where
  "ack requestId sourceId payload =
     jsonResponse
       (JObj [(''type'', JStr ''ack''), (''request_id'', requestId), (''source_id'', JStr sourceId),
              (''payload'', payload)])
       200"

definition nack :: "jval \<Rightarrow> string \<Rightarrow> string \<Rightarrow> jval \<Rightarrow> response" where
  "nack requestId sourceId code message =
     jsonResponse
       (JObj [(''type'', JStr ''nack''), (''request_id'', requestId), (''source_id'', JStr sourceId),
              (''payload'', JObj [(''status'', JStr ''error''), (''code'', JStr code), (''message'', message)])])
       400"

text \<open>\<^verbatim>\<open>xs[1]\<close>, which is undefined (\<open>None\<close>) on an array shorter than two.\<close>

fun second :: "'a list \<Rightarrow> 'a option" where
  "second (x # y # ys) = Some y"
| "second _ = None"

text \<open>
  \<^verbatim>\<open>handleApi\<close>. Nothing here catches: reading \<^verbatim>\<open>request_id\<close> off a body that parsed to
  null, and whatever \<^verbatim>\<open>handleApiRequest\<close> throws, leave the function (\<open>Inl\<close>).
\<close>

definition handleApi :: "host \<Rightarrow> request \<Rightarrow> env \<Rightarrow> world \<Rightarrow> response step" where
  "handleApi h req e w =
     (let instanceId = (case DA_INSTANCEID e of Some i \<Rightarrow> if i \<noteq> [] then i else G_INSTANCE
                        | None \<Rightarrow> G_INSTANCE);
          sourceId = C_SERVICE @ ''/'' @ instanceId
      in case authorization req of
           None \<Rightarrow> (Inr (nack (JStr ''unknown'') sourceId ''UNAUTHORIZED'' (JStr ''Missing Authorization'')), w)
         | Some auth \<Rightarrow>
             if auth = [] \<or> \<not> prefix ''Bearer '' auth
             then (Inr (nack (JStr ''unknown'') sourceId ''UNAUTHORIZED'' (JStr ''Missing Authorization'')), w)
             else if second (split CHR '' '' auth) \<noteq> DA_WRITE_TOKEN e
             then (Inr (nack (JStr ''unknown'') sourceId ''INVALID_TOKEN'' (JStr ''Token failed'')), w)
             else (case json req of
                     None \<Rightarrow> (Inr (nack (JStr ''unknown'') sourceId ''INVALID_JSON'' (JStr ''Malformed JSON'')), w)
                   | Some body \<Rightarrow>
                       if nullish body then (Inl (cannot_read body ''request_id''), w)
                       else (let requestId = js_or (field body ''request_id'') (JStr ''unknown'')
                             in if \<not> truthy (field body ''payload'')
                                then (Inr (nack requestId sourceId ''INVALID_FIELD'' (JStr ''Missing payload'')), w)
                                else (case handleApiRequest h (DB e) (js_or (field body ''action'') (JStr ''''))
                                             (field body ''payload'') w of
                                        (Inl ex, w') \<Rightarrow> (Inl ex, w')
                                      | (Inr ret, w') \<Rightarrow>
                                          if truthy ret \<and> truthy (field ret ''error'')
                                          then (Inr (nack requestId sourceId ''REQUEST_FAILED'' (field ret ''error'')), w')
                                          else (Inr (ack requestId sourceId (js_or ret (JObj []))), w')))))"

text \<open>\<^verbatim>\<open>onRequest\<close>, the entry point: anything but POST is refused with a plain text.\<close>

definition onRequest :: "host \<Rightarrow> request \<Rightarrow> env \<Rightarrow> world \<Rightarrow> response step" where
  "onRequest h req e w =
     (if http_method req \<noteq> ''POST''
      then (Inr \<lparr>status = 405, content_type = Some ''text/plain;charset=UTF-8'',
                  content = Text ''Method Not Allowed''\<rparr>, w)
      else handleApi h req e w)"

section \<open>Concrete collaborators\<close>

text \<open>
  A host and stores for running the handler on concrete requests. The stores answer as
  D1 does: a result holds \<^verbatim>\<open>results\<close> and \<^verbatim>\<open>meta\<close>, the number of rows a statement
  changed is the member \<^verbatim>\<open>changes\<close> of \<^verbatim>\<open>meta\<close>, and the result has no \<^verbatim>\<open>changes\<close>
  member of its own, so that \<^verbatim>\<open>result.changes\<close> is undefined. \<open>store_rows n\<close> changes
  \<open>n\<close> rows with every statement and answers a batch with one result per statement;
  \<open>store_ok\<close> is \<open>store_rows 1\<close>; \<open>store_failing msg\<close> throws \<open>msg\<close> whatever it
  is asked.
\<close>

definition host0 :: host where
  "host0 = \<lparr>stringify = (\<lambda>_. ''{}''), format_number = (\<lambda>_. ''0.5'')\<rparr>"

definition d1_answer :: "nat \<Rightarrow> d1_result" where
  "d1_answer n =
     \<lparr>results = JArr [], meta = JObj [(''changes'', JNum (of_nat n))], changes = JUndefined\<rparr>"

definition store_rows :: "nat \<Rightarrow> store" where
  "store_rows n =
     \<lparr>db_run = (\<lambda>_ _. Inr (d1_answer n)),
      db_all = (\<lambda>_ _. Inr (d1_answer n)),
      db_batch = (\<lambda>_ ss. Inr (map (\<lambda>_. d1_answer n) ss))\<rparr>"

definition store_ok :: store where
  "store_ok = store_rows 1"

definition store_failing :: "string \<Rightarrow> store" where
  "store_failing msg =
     \<lparr>db_run = (\<lambda>_ _. Inl msg), db_all = (\<lambda>_ _. Inl msg), db_batch = (\<lambda>_ _. Inl msg)\<rparr>"

definition world0 :: world where
  "world0 = \<lparr>calls = [], console = [], deferred = 0\<rparr>"

section \<open>Reading the outcome\<close>


text \<open>
  The row limit as the specification words it, to be compared with \<open>limit_of\<close>: the
  given limit when it is an integer from 1 to 500, 500 when it is a larger integer, and
  100 in every other case.
\<close>

definition spec_limit :: "jval \<Rightarrow> nat" where
  "spec_limit v =
     (case v of
        JNum r \<Rightarrow>
          if is_integer r \<and> 0 < r \<and> r \<le> 500 then nat \<lfloor>r\<rfloor>
          else if is_integer r \<and> 500 < r then 500
          else 100
      | _ \<Rightarrow> 100)"

section \<open>Auxiliary facts\<close>

subsection \<open>Substrings and trimming\<close>

lemma str_includes_sublist: "str_includes s t = sublist t s"
  by (induction s) (auto simp: sublist_Cons_right)

lemma sublist_dropWhile_free:
  assumes "t \<noteq> []" "\<forall>c\<in>set t. \<not> P c"
  shows "sublist t (dropWhile P s) = sublist t s"
proof (induction s)
  case Nil
  show ?case by simp
next
  case (Cons x xs)
  show ?case
  proof (cases "P x")
    case True
    have "\<not> prefix t (x # xs)"
    proof
      assume "prefix t (x # xs)"
      with assms(1) have "hd t = x" by (cases t) auto
      with assms True show False by (cases t) auto
    qed
    with True Cons show ?thesis by (simp add: sublist_Cons_right)
  next
    case False
    then show ?thesis by simp
  qed
qed

lemma sublist_trim:
  assumes "t \<noteq> []" "\<forall>c\<in>set t. \<not> is_space c"
  shows "sublist t (trim s) = sublist t s"
proof -
  have "sublist t (trim s) = sublist (rev t) (dropWhile is_space (rev (dropWhile is_space s)))"
    by (simp add: trim_def sublist_rev_right)
  also have "\<dots> = sublist (rev t) (rev (dropWhile is_space s))"
    using assms by (intro sublist_dropWhile_free) auto
  also have "\<dots> = sublist t (dropWhile is_space s)"
    by simp
  also have "\<dots> = sublist t s"
    using assms by (rule sublist_dropWhile_free)
  finally show ?thesis .
qed

lemma no_space_sqlite_master: "\<forall>c\<in>set ''sqlite_master''. \<not> is_space c"
  by (simp add: is_space_def)

lemma no_space_cf: "\<forall>c\<in>set ''_cf_''. \<not> is_space c"
  by (simp add: is_space_def)

lemma tableSql_if_not_exists: "sublist ''IF NOT EXISTS'' (tableSql t u)"
proof -
  have "tableSql t u = (newline @ ''    CREATE TABLE '') @ ''IF NOT EXISTS''
          @ (tl (drop 30 (tableSql t u)))"
    by (simp add: tableSql_def newline_def)
  then show ?thesis
    by (metis sublist_appendI)
qed

lemma index_if_not_exists: "sublist ''IF NOT EXISTS'' (''CREATE INDEX IF NOT EXISTS idx_'' @ rest)"
proof -
  have "''CREATE INDEX IF NOT EXISTS idx_'' @ rest
        = ''CREATE INDEX '' @ ''IF NOT EXISTS'' @ ('' idx_'' @ rest)"
    by simp
  then show ?thesis
    by (metis sublist_appendI)
qed

subsection \<open>The dispatcher once the table name is resolved\<close>

lemma handleApiRequest_resolved:
  assumes "resolveTableName payload = Inr (Some t)"
  shows "handleApiRequest h db a payload w =
           (case switch_action h db a t payload w of
              (Inr ret, w') \<Rightarrow> (Inr ret, w')
            | (Inl e, w') \<Rightarrow> (Inr (error_obj e), errDelegate (''DB operation failed: '' @ e) w'))"
  using assms by (simp add: handleApiRequest_def)

lemma handleApiRequest_calls:
  assumes "resolveTableName payload = Inr (Some t)"
  shows "calls (snd (handleApiRequest h db a payload w)) = calls (snd (switch_action h db a t payload w))"
  using assms
  by (auto simp: handleApiRequest_def errDelegate_def split: prod.splits sum.splits)

subsection \<open>Numbers, properties and keys\<close>

lemma number_to_string_small:
  assumes "is_integer r" "0 \<le> r" "r \<le> 500"
  shows "number_to_string h r = dec_nat (nat \<lfloor>r\<rfloor>)"
proof -
  from assms have "\<bar>r\<bar> \<le> 9007199254740992" by simp
  moreover from assms have "\<not> \<lfloor>r\<rfloor> < 0" by simp
  ultimately show ?thesis
    using assms(1) by (simp add: number_to_string_def dec_int_def)
qed

lemma number_to_string_100: "number_to_string h 100 = dec_nat 100"
proof -
  have "is_integer 100" by (simp add: is_integer_def)
  then show ?thesis
    using number_to_string_small [of 100 h] by simp
qed

lemma number_to_string_500: "number_to_string h 500 = dec_nat 500"
proof -
  have "is_integer 500" by (simp add: is_integer_def)
  then show ?thesis
    using number_to_string_small [of 500 h] by simp
qed

lemma limit_text: "number_to_string h (limit_of v) = dec_nat (spec_limit v)"
proof (cases v)
  case (JNum r)
  show ?thesis
  proof (cases "is_integer r \<and> 0 < r")
    case True
    show ?thesis
    proof (cases "r \<le> 500")
      case le: True
      with True JNum show ?thesis
        by (simp add: limit_of_def spec_limit_def number_to_string_small)
    next
      case False
      with True JNum show ?thesis
        by (simp add: limit_of_def spec_limit_def number_to_string_500)
    qed
  next
    case False
    with JNum show ?thesis
      by (auto simp: limit_of_def spec_limit_def number_to_string_100)
  qed
qed (simp_all add: limit_of_def spec_limit_def number_to_string_100)

lemma field_own:
  "k \<noteq> ''length'' \<Longrightarrow> field v k = (case map_of (own_entries v) k of Some x \<Rightarrow> x | None \<Rightarrow> JUndefined)"
  by (simp add: field_def split: option.split jval.split)

lemma map_of_filter_key:
  "k \<noteq> a \<Longrightarrow> map_of (filter (\<lambda>(k', v). k' \<noteq> a) kvs) k = map_of kvs k"
  by (induction kvs) auto

lemma field_options:
  assumes "k \<noteq> ''table_name''" "k \<noteq> ''length''"
  shows "field (JObj (filter (\<lambda>(k, v). k \<noteq> ''table_name'') (own_entries p))) k = field p k"
  using assms by (simp add: field_own map_of_filter_key)

lemma keys_options:
  "keys (JObj (filter (\<lambda>(k, v). k \<noteq> ''table_name'') (own_entries p)))
   = filter (\<lambda>k. k \<noteq> ''table_name'') (keys p)"
  by (simp add: keys_def filter_map comp_def case_prod_unfold)

lemma table_name_is_option: "''table_name'' \<in> set allowedQueryOptions"
  by (simp add: allowedQueryOptions_def)

lemma columnFilters_of_payload:
  "filter (\<lambda>k. k \<notin> set allowedQueryOptions)
      (keys (JObj (filter (\<lambda>(k, v). k \<noteq> ''table_name'') (own_entries p))))
   = filter (\<lambda>k. k \<notin> set allowedQueryOptions) (keys p)"
proof -
  have "(k \<noteq> ''table_name'' \<and> k \<notin> set allowedQueryOptions) = (k \<notin> set allowedQueryOptions)" for k
    using table_name_is_option by blast
  then show ?thesis
    unfolding keys_options filter_filter by simp
qed

lemma ends_with: "\<exists>base. a @ b @ c @ d @ e @ f @ g @ s = base @ s"
  by (rule exI [of _ "a @ b @ c @ d @ e @ f @ g"]) simp

lemma getStatement_sql:
  "\<exists>base. sql (getStatement h t options cf)
     = base @ '' LIMIT '' @ number_to_string h (limit_of (field options ''limit''))"
  unfolding getStatement_def Let_def bind_def prepare_def stmt.simps by (rule ends_with)

subsection \<open>Normalising and the statement of put\<close>

lemma keys_assign: "map fst (assign k x kvs) = map fst kvs"
  by (induction kvs) auto

lemma map_of_assign_other: "k' \<noteq> k \<Longrightarrow> map_of (assign k x kvs) k' = map_of kvs k'"
  by (induction kvs) auto

lemma keys_normalize_column: "keys (normalize_column h obj k) = keys obj"
  by (simp add: normalize_column_def keys_def keys_assign split: jval.split)

lemma keys_normalizeJsonColumns: "keys (normalizeJsonColumns h obj) = keys obj"
  by (simp add: normalizeJsonColumns_def keys_normalize_column)

lemma field_normalize_column_other:
  "k' \<noteq> k \<Longrightarrow> field (normalize_column h obj k) k' = field obj k'"
  by (simp add: normalize_column_def field_def map_of_assign_other split: jval.split)

lemma field_normalizeJsonColumns_other:
  "k \<noteq> ''t1'' \<Longrightarrow> k \<noteq> ''t2'' \<Longrightarrow> k \<noteq> ''t3''
   \<Longrightarrow> field (normalizeJsonColumns h obj) k = field obj k"
  by (simp add: normalizeJsonColumns_def field_normalize_column_other)

lemma join_then_sep:
  "xs \<noteq> [] \<Longrightarrow> join sep xs @ sep @ rest = concat (map (\<lambda>x. x @ sep) xs) @ rest"
  by (induction sep xs rule: join.induct) simp_all

text \<open>The statement of put, whichever branch builds it.\<close>

lemma putStatement_text:
  "putStatement t p hasId ks
   = \<lparr>sql = ''UPDATE '' @ t @ '' SET '' @ concat (map (\<lambda>k. k @ '' = ?, '') ks)
            @ ''v2 = CURRENT_TIMESTAMP WHERE '' @ (if hasId then ''id = ?'' else ''c1 = ?''),
      binds = map (field p) ks @ [if hasId then field p ''id'' else field p ''c1'']\<rparr>"
proof (cases "ks = []")
  case True
  then show ?thesis
    by (simp add: putStatement_def bind_def prepare_def)
next
  case False
  have "join '', '' (map (\<lambda>k. k @ '' = ?'') ks) @ '', '' @ rest
        = concat (map (\<lambda>k. k @ '' = ?, '') ks) @ rest" for rest
    using False join_then_sep [of "map (\<lambda>k. k @ '' = ?'') ks" "'', ''" rest]
    by (simp add: comp_def)
  from this [of "''v2 = CURRENT_TIMESTAMP WHERE '' @ (if hasId then ''id = ?'' else ''c1 = ?'')"] False
  show ?thesis
    by (simp add: putStatement_def bind_def prepare_def Let_def)
qed

lemma case_put_accepted:
  assumes "\<not> nullish (field payload ''id'') \<or> \<not> nullish (field payload ''c1'')"
    and "\<forall>k \<in> set (filter (\<lambda>k. k \<notin> set [''table_name'', ''id'', ''c1'']) (keys payload)).
           k \<in> set allowedColumns"
    and "st = putStatement t (normalizeJsonColumns h payload) (\<not> nullish (field payload ''id''))
               (filter (\<lambda>k. k \<notin> set [''table_name'', ''id'', ''c1'']) (keys payload))"
  shows "case_put h db t payload w =
           (case db_run db (calls w) st of
              Inl e \<Rightarrow> Inl e
            | Inr r \<Rightarrow> if changes r = JNum 0 then Inr (error_obj ''Record not found or no rows updated'')
                       else Inr (JObj [(''updated'', changes r)]),
            w\<lparr>calls := calls w @ [CallRun st]\<rparr>)"
proof -
  have "filter (\<lambda>k. k \<notin> set allowedColumns)
          (filter (\<lambda>k. k \<notin> set [''table_name'', ''id'', ''c1'']) (keys payload)) = []"
    using assms(2) by (auto simp: filter_empty_conv)
  then show ?thesis
    using assms(1,3)
    unfolding case_put_def Let_def keys_normalizeJsonColumns
    by (auto simp: run_def split: sum.splits)
qed

lemma case_put_rejected:
  assumes "\<not> ((\<not> nullish (field payload ''id'') \<or> \<not> nullish (field payload ''c1''))
             \<and> (\<forall>k \<in> set (filter (\<lambda>k. k \<notin> set [''table_name'', ''id'', ''c1'']) (keys payload)).
                   k \<in> set allowedColumns))"
  shows "snd (case_put h db t payload w) = w"
proof -
  have "filter (\<lambda>k. k \<notin> set allowedColumns)
          (filter (\<lambda>k. k \<notin> set [''table_name'', ''id'', ''c1'']) (keys payload)) \<noteq> []"
    if "\<not> (\<forall>k \<in> set (filter (\<lambda>k. k \<notin> set [''table_name'', ''id'', ''c1'']) (keys payload)).
                   k \<in> set allowedColumns)"
    using that by (auto simp: filter_empty_conv)
  then show ?thesis
    using assms
    unfolding case_put_def Let_def keys_normalizeJsonColumns
    by auto
qed

lemma handleApiRequest_put:
  assumes "resolveTableName payload = Inr (Some t)"
  shows "calls (snd (handleApiRequest h db (JStr ''put'') payload w)) = calls (snd (case_put h db t payload w))"
    and "fst (case_put h db t payload w) = Inr ret
         \<Longrightarrow> fst (handleApiRequest h db (JStr ''put'') payload w) = Inr ret"
proof -
  show "calls (snd (handleApiRequest h db (JStr ''put'') payload w)) = calls (snd (case_put h db t payload w))"
    using assms by (simp add: handleApiRequest_calls switch_action_def)
  show "fst (handleApiRequest h db (JStr ''put'') payload w) = Inr ret"
    if "fst (case_put h db t payload w) = Inr ret"
    using assms that
    by (auto simp: handleApiRequest_resolved switch_action_def split: prod.splits sum.splits)
qed

subsection \<open>Envelopes\<close>




subsection \<open>The words of a statement\<close>

lemma split_word:
  "sep \<notin> set a \<Longrightarrow> split sep (a @ sep # b) = a # split sep b"
  by (induction a) auto

lemma split_last_word:
  "sep \<notin> set a \<Longrightarrow> split sep a = [a]"
  by (induction a) auto

lemma plain_no_space:
  assumes "set t \<subseteq> set ''abcdefghijklmnopqrstuvwxyzABCDEFGHIJKLMNOPQRSTUVWXYZ0123456789_''"
  shows "CHR '' '' \<notin> set t"
proof
  assume "CHR '' '' \<in> set t"
  with assms have "CHR '' '' \<in> set ''abcdefghijklmnopqrstuvwxyzABCDEFGHIJKLMNOPQRSTUVWXYZ0123456789_''"
    by blast
  then show False by simp
qed

lemma column_no_space: "k \<in> set allowedColumns \<Longrightarrow> CHR '' '' \<notin> set k"
  by (auto simp: allowedColumns_def)

lemma split_assignments:
  assumes "\<forall>k \<in> set ks. CHR '' '' \<notin> set k"
  shows "split CHR '' '' (concat (map (\<lambda>k. k @ '' = ?, '') ks) @ rest)
         = concat (map (\<lambda>k. [k, ''='', ''?,'']) ks) @ split CHR '' '' rest"
  using assms
proof (induction ks)
  case Nil
  show ?case by simp
next
  case (Cons k ks)
  then have k: "CHR '' '' \<notin> set k" and IH: "split CHR '' '' (concat (map (\<lambda>k. k @ '' = ?, '') ks) @ rest)
         = concat (map (\<lambda>k. [k, ''='', ''?,'']) ks) @ split CHR '' '' rest"
    by simp_all
  have "split CHR '' '' (k @ CHR '' '' # (''= ?, '' @ concat (map (\<lambda>k. k @ '' = ?, '') ks) @ rest))
        = k # split CHR '' '' (''= ?, '' @ concat (map (\<lambda>k. k @ '' = ?, '') ks) @ rest)"
    using k by (rule split_word)
  also have "split CHR '' '' (''= ?, '' @ concat (map (\<lambda>k. k @ '' = ?, '') ks) @ rest)
        = ''='' # ''?,'' # split CHR '' '' (concat (map (\<lambda>k. k @ '' = ?, '') ks) @ rest)"
    by simp
  finally show ?case
    using IH by simp
qed

lemma split_put_text:
  assumes "CHR '' '' \<notin> set t" and "\<forall>k \<in> set ks. CHR '' '' \<notin> set k"
  shows "split CHR '' '' (''UPDATE '' @ t @ '' SET '' @ concat (map (\<lambda>k. k @ '' = ?, '') ks)
                           @ ''v2 = CURRENT_TIMESTAMP WHERE '' @ (if hasId then ''id = ?'' else ''c1 = ?''))
         = [''UPDATE'', t, ''SET''] @ concat (map (\<lambda>k. [k, ''='', ''?,'']) ks)
           @ [''v2'', ''='', ''CURRENT_TIMESTAMP'', ''WHERE'', if hasId then ''id'' else ''c1'', ''='', ''?'']"
  using assms by (simp add: split_word split_assignments)

section \<open>Table-name resolution comes first\<close>

text \<open>
  Claim C2. Whatever the action, a payload whose \<^verbatim>\<open>table_name\<close> is absent (undefined or
  null), blank after trimming, or one of the four catalog names after trimming, makes
  \<^verbatim>\<open>handleApiRequest\<close> return the error "Invalid or missing table_name". The outcome
  mentions neither the action nor the store: only the diagnostic line is written, and the
  list of calls to the store is the one the request started with. The payload itself is
  a value, as \<^verbatim>\<open>handleApi\<close> only passes on a truthy payload.
\<close>

theorem table_name_checked_first:
  assumes "\<not> nullish payload"
    and "field payload ''table_name'' = JUndefined
         \<or> field payload ''table_name'' = JNull
         \<or> (\<exists>s. field payload ''table_name'' = JStr s
                \<and> (trim s = []
                    \<or> trim s \<in> {''sqlite_master'', ''sqlite_schema'', ''sqlite_temp_master'',
                                 ''sqlite_sequence''}))"
  shows "handleApiRequest h db action payload w
         = (Inr (error_obj ''Invalid or missing table_name''),
            w\<lparr>console := console w @ [''Invalid or missing table_name''], deferred := Suc (deferred w)\<rparr>)"
proof -
  from assms have "resolveTableName payload = Inr None"
    by (auto simp: resolveTableName_def FORBIDDEN_TABLES_def)
  then show ?thesis
    by (simp add: handleApiRequest_def errDelegate_def)
qed

theorem table_name_checked_first_witness:
  "\<not> nullish (JObj [(''query'', JStr ''SELECT 1'')])
   \<and> field (JObj [(''query'', JStr ''SELECT 1'')]) ''table_name'' = JUndefined
   \<and> handleApiRequest host0 store_ok (JStr ''exec'') (JObj [(''query'', JStr ''SELECT 1'')]) world0
       = (Inr (error_obj ''Invalid or missing table_name''),
          world0\<lparr>console := console world0 @ [''Invalid or missing table_name''],
                 deferred := Suc (deferred world0)\<rparr>)"
proof -
  have a: "\<not> nullish (JObj [(''query'', JStr ''SELECT 1'')])" by simp
  have b: "field (JObj [(''query'', JStr ''SELECT 1'')]) ''table_name'' = JUndefined"
    by (simp add: field_def)
  from table_name_checked_first [OF a disjI1 [OF b]] a b show ?thesis by blast
qed

section \<open>Raw SQL\<close>

text \<open>
  Claim C3. An \<^verbatim>\<open>exec\<close> request that reaches its case (its table name resolves) and
  whose query is a text containing, once lower-cased, \<^verbatim>\<open>sqlite_master\<close> or \<^verbatim>\<open>_cf_\<close>,
  returns the error "Access to system tables via EXEC is forbidden." and leaves the
  world as it was: no statement is prepared, bound or executed. The letter case of the
  original text plays no part, as the test is made on the lower-cased copy.
\<close>

theorem exec_rejects_catalog_queries:
  assumes "resolveTableName payload = Inr (Some tableName)"
    and "field payload ''query'' = JStr q"
    and "sublist ''sqlite_master'' (toLowerCase q) \<or> sublist ''_cf_'' (toLowerCase q)"
  shows "handleApiRequest h db (JStr ''exec'') payload w
         = (Inr (error_obj ''Access to system tables via EXEC is forbidden.''), w)"
proof -
  from assms(3) have "q \<noteq> []" by (auto simp: toLowerCase_def)
  moreover have "str_includes (trim (toLowerCase q)) ''sqlite_master''
                 \<or> str_includes (trim (toLowerCase q)) ''_cf_''"
    using assms(3) no_space_sqlite_master no_space_cf
    by (simp add: str_includes_sublist sublist_trim)
  ultimately have "case_exec db payload w
         = (Inr (error_obj ''Access to system tables via EXEC is forbidden.''), w)"
    using assms(2) by (simp add: case_exec_def Let_def)
  then show ?thesis
    using assms(1) by (simp add: handleApiRequest_resolved switch_action_def)
qed

theorem exec_rejects_catalog_queries_witness:
  "resolveTableName (JObj [(''table_name'', JStr ''notes''), (''query'', JStr ''SELECT * FROM SQLite_Master'')])
     = Inr (Some ''notes'')
   \<and> sublist ''sqlite_master'' (toLowerCase ''SELECT * FROM SQLite_Master'')
   \<and> handleApiRequest host0 store_ok (JStr ''exec'')
        (JObj [(''table_name'', JStr ''notes''), (''query'', JStr ''SELECT * FROM SQLite_Master'')]) world0
       = (Inr (error_obj ''Access to system tables via EXEC is forbidden.''), world0)"
proof -
  let ?p = "JObj [(''table_name'', JStr ''notes''), (''query'', JStr ''SELECT * FROM SQLite_Master'')]"
  have a: "resolveTableName ?p = Inr (Some ''notes'')"
    by code_simp
  have b: "field ?p ''query'' = JStr ''SELECT * FROM SQLite_Master''"
    by (simp add: field_def)
  have c: "sublist ''sqlite_master'' (toLowerCase ''SELECT * FROM SQLite_Master'')"
    unfolding str_includes_sublist [symmetric] by code_simp
  from exec_rejects_catalog_queries [OF a b disjI1 [OF c]] a c show ?thesis by blast
qed

section \<open>Creating a table\<close>

text \<open>
  Claim C7. A \<^verbatim>\<open>create_table\<close> request that reaches its case hands the store one batch:
  the CREATE TABLE statement with the fixed sixteen columns, in which c1 carries UNIQUE
  exactly when \<^verbatim>\<open>c1_unique\<close> is truthy; an index on c1 exactly when \<^verbatim>\<open>c1_unique\<close> is
  falsy; and an index on v2 in either case. Each of these statements contains
  IF NOT EXISTS, and repeating the request hands the store the very same batch again.
\<close>

theorem create_table_statements:
  assumes "resolveTableName payload = Inr (Some t)"
  shows "\<exists>ss w'.
           snd (handleApiRequest h db (JStr ''create_table'') payload w) = w'
         \<and> calls w' = calls w @ [CallBatch ss]
         \<and> ss = [\<lparr>sql = [CHR 0x0A] @ ''    CREATE TABLE IF NOT EXISTS '' @ t @ '' ('' @ [CHR 0x0A]
                     @ ''      id INTEGER PRIMARY KEY AUTOINCREMENT,'' @ [CHR 0x0A]
                     @ ''      c1 VARCHAR(255) ''
                     @ (if truthy (field payload ''c1_unique'') then ''UNIQUE'' else '''') @ '','' @ [CHR 0x0A]
                     @ ''      c2 VARCHAR(255), c3 VARCHAR(255),'' @ [CHR 0x0A]
                     @ ''      i1 INT, i2 INT, i3 INT,'' @ [CHR 0x0A]
                     @ ''      d1 DOUBLE, d2 DOUBLE, d3 DOUBLE,'' @ [CHR 0x0A]
                     @ ''      t1 TEXT, t2 TEXT, t3 TEXT,'' @ [CHR 0x0A]
                     @ ''      v1 TIMESTAMP DEFAULT CURRENT_TIMESTAMP,'' @ [CHR 0x0A]
                     @ ''      v2 TIMESTAMP DEFAULT CURRENT_TIMESTAMP,'' @ [CHR 0x0A]
                     @ ''      v3 TIMESTAMP DEFAULT CURRENT_TIMESTAMP'' @ [CHR 0x0A]
                     @ ''    );'' @ [CHR 0x0A] @ ''  '',
                   binds = []\<rparr>]
               @ (if truthy (field payload ''c1_unique'') then []
                  else [\<lparr>sql = ''CREATE INDEX IF NOT EXISTS idx_'' @ t @ ''_c1 ON '' @ t @ ''(c1)'',
                         binds = []\<rparr>])
               @ [\<lparr>sql = ''CREATE INDEX IF NOT EXISTS idx_'' @ t @ ''_v2 ON '' @ t @ ''(v2)'',
                    binds = []\<rparr>]
         \<and> (\<forall>s \<in> set ss. sublist ''IF NOT EXISTS'' (sql s))
         \<and> calls (snd (handleApiRequest h db (JStr ''create_table'') payload w'))
             = calls w @ [CallBatch ss, CallBatch ss]"
proof -
  let ?ss = "createTableStatements t (truthy (field payload ''c1_unique''))"
  have step: "calls (snd (handleApiRequest h db (JStr ''create_table'') payload v))
              = calls v @ [CallBatch ?ss]" for v
  proof -
    have "calls (snd (case_create_table db t payload v)) = calls v @ [CallBatch ?ss]"
      by (simp add: case_create_table_def daCreateTable_def batch_def Let_def split: sum.splits)
    then show ?thesis
      using assms by (simp add: handleApiRequest_calls switch_action_def)
  qed
  have "\<forall>s \<in> set ?ss. sublist ''IF NOT EXISTS'' (sql s)"
    using tableSql_if_not_exists index_if_not_exists
    by (simp add: createTableStatements_def prepare_def)
  moreover have "calls (snd (handleApiRequest h db (JStr ''create_table'') payload
                   (snd (handleApiRequest h db (JStr ''create_table'') payload w))))
                 = calls w @ [CallBatch ?ss, CallBatch ?ss]"
    by (simp add: step)
  moreover have "?ss = [\<lparr>sql = [CHR 0x0A] @ ''    CREATE TABLE IF NOT EXISTS '' @ t @ '' ('' @ [CHR 0x0A]
                     @ ''      id INTEGER PRIMARY KEY AUTOINCREMENT,'' @ [CHR 0x0A]
                     @ ''      c1 VARCHAR(255) ''
                     @ (if truthy (field payload ''c1_unique'') then ''UNIQUE'' else '''') @ '','' @ [CHR 0x0A]
                     @ ''      c2 VARCHAR(255), c3 VARCHAR(255),'' @ [CHR 0x0A]
                     @ ''      i1 INT, i2 INT, i3 INT,'' @ [CHR 0x0A]
                     @ ''      d1 DOUBLE, d2 DOUBLE, d3 DOUBLE,'' @ [CHR 0x0A]
                     @ ''      t1 TEXT, t2 TEXT, t3 TEXT,'' @ [CHR 0x0A]
                     @ ''      v1 TIMESTAMP DEFAULT CURRENT_TIMESTAMP,'' @ [CHR 0x0A]
                     @ ''      v2 TIMESTAMP DEFAULT CURRENT_TIMESTAMP,'' @ [CHR 0x0A]
                     @ ''      v3 TIMESTAMP DEFAULT CURRENT_TIMESTAMP'' @ [CHR 0x0A]
                     @ ''    );'' @ [CHR 0x0A] @ ''  '',
                   binds = []\<rparr>]
               @ (if truthy (field payload ''c1_unique'') then []
                  else [\<lparr>sql = ''CREATE INDEX IF NOT EXISTS idx_'' @ t @ ''_c1 ON '' @ t @ ''(c1)'',
                         binds = []\<rparr>])
               @ [\<lparr>sql = ''CREATE INDEX IF NOT EXISTS idx_'' @ t @ ''_v2 ON '' @ t @ ''(v2)'',
                    binds = []\<rparr>]"
    by (simp add: createTableStatements_def prepare_def tableSql_def newline_def)
  ultimately show ?thesis
    using step [of w]
    by (intro exI [of _ ?ss] exI [of _ "snd (handleApiRequest h db (JStr ''create_table'') payload w)"])
       simp
qed

theorem create_table_statements_witness:
  "resolveTableName (JObj [(''table_name'', JStr ''notes''), (''c1_unique'', JBool True)])
     = Inr (Some ''notes'')
   \<and> length (calls (snd (handleApiRequest host0 store_ok (JStr ''create_table'')
               (JObj [(''table_name'', JStr ''notes''), (''c1_unique'', JBool True)]) world0))) = 1"
proof -
  have a: "resolveTableName (JObj [(''table_name'', JStr ''notes''), (''c1_unique'', JBool True)])
           = Inr (Some ''notes'')"
    by code_simp
  from create_table_statements [OF a, of host0 store_ok world0] a show ?thesis
    by (auto simp: world0_def)
qed

section \<open>Updating a row\<close>

text \<open>
  Claim C4, as the code has it. A \<^verbatim>\<open>put\<close> request that reaches its case, names the row by
  \<^verbatim>\<open>id\<close> or \<^verbatim>\<open>c1\<close> and has no key left once \<^verbatim>\<open>table_name\<close>, \<^verbatim>\<open>id\<close> and \<^verbatim>\<open>c1\<close> are removed,
  submits exactly one statement: the text UPDATE, the table name as resolved, SET v2 =
  CURRENT_TIMESTAMP WHERE and the identifying column, bound to the identifying value
  alone. The table name enters the text as it is; when it consists of letters, digits and
  underscores only, the words of the text are UPDATE, the table name, SET, v2, =,
  CURRENT_TIMESTAMP, WHERE, the identifying column, = and ?, so that v2 is the one column
  assigned.
\<close>

theorem put_touch_statement:
  assumes "resolveTableName payload = Inr (Some tableName)"
    and "\<not> nullish (field payload ''id'') \<or> \<not> nullish (field payload ''c1'')"
    and "filter (\<lambda>k. k \<notin> set [''table_name'', ''id'', ''c1'']) (keys payload) = []"
  shows "calls (snd (handleApiRequest h db (JStr ''put'') payload w))
         = calls w @
           [CallRun \<lparr>sql = ''UPDATE '' @ tableName @ '' SET v2 = CURRENT_TIMESTAMP WHERE ''
                          @ (if \<not> nullish (field payload ''id'') then ''id = ?'' else ''c1 = ?''),
                     binds = [if \<not> nullish (field payload ''id'') then field payload ''id''
                              else field payload ''c1'']\<rparr>]
       \<and> (set tableName \<subseteq> set ''abcdefghijklmnopqrstuvwxyzABCDEFGHIJKLMNOPQRSTUVWXYZ0123456789_''
          \<longrightarrow> split CHR '' '' (''UPDATE '' @ tableName @ '' SET v2 = CURRENT_TIMESTAMP WHERE ''
                                @ (if \<not> nullish (field payload ''id'') then ''id = ?'' else ''c1 = ?''))
              = [''UPDATE'', tableName, ''SET'', ''v2'', ''='', ''CURRENT_TIMESTAMP'', ''WHERE'',
                 if \<not> nullish (field payload ''id'') then ''id'' else ''c1'', ''='', ''?''])"
proof -
  let ?ks = "filter (\<lambda>k. k \<notin> set [''table_name'', ''id'', ''c1'']) (keys payload)"
  let ?hasId = "\<not> nullish (field payload ''id'')"
  let ?st = "putStatement tableName (normalizeJsonColumns h payload) ?hasId ?ks"
  from assms(3) have "\<forall>k \<in> set ?ks. k \<in> set allowedColumns" by simp
  from case_put_accepted [where t = tableName and h = h and db = db and w = w, OF assms(2) this refl]
  have "calls (snd (case_put h db tableName payload w)) = calls w @ [CallRun ?st]"
    by simp
  moreover have "?st = \<lparr>sql = ''UPDATE '' @ tableName @ '' SET v2 = CURRENT_TIMESTAMP WHERE ''
                               @ (if ?hasId then ''id = ?'' else ''c1 = ?''),
                          binds = [if ?hasId then field payload ''id'' else field payload ''c1'']\<rparr>"
    unfolding putStatement_text assms(3)
    by (simp add: field_normalizeJsonColumns_other)
  ultimately have submitted: "calls (snd (handleApiRequest h db (JStr ''put'') payload w))
         = calls w @
           [CallRun \<lparr>sql = ''UPDATE '' @ tableName @ '' SET v2 = CURRENT_TIMESTAMP WHERE ''
                          @ (if ?hasId then ''id = ?'' else ''c1 = ?''),
                     binds = [if ?hasId then field payload ''id'' else field payload ''c1'']\<rparr>]"
    using handleApiRequest_put(1) [OF assms(1), of h db w] by simp
  have words: "split CHR '' '' (''UPDATE '' @ tableName @ '' SET v2 = CURRENT_TIMESTAMP WHERE ''
                                @ (if ?hasId then ''id = ?'' else ''c1 = ?''))
              = [''UPDATE'', tableName, ''SET'', ''v2'', ''='', ''CURRENT_TIMESTAMP'', ''WHERE'',
                 if ?hasId then ''id'' else ''c1'', ''='', ''?'']"
    if "set tableName \<subseteq> set ''abcdefghijklmnopqrstuvwxyzABCDEFGHIJKLMNOPQRSTUVWXYZ0123456789_''"
    using split_put_text [of tableName "[]" ?hasId] plain_no_space [OF that] by simp
  from submitted words show ?thesis by blast
qed

theorem put_touch_statement_witness:
  "resolveTableName (JObj [(''table_name'', JStr ''notes''), (''id'', JNum 7)]) = Inr (Some ''notes'')
   \<and> calls (snd (handleApiRequest host0 store_ok (JStr ''put'')
                  (JObj [(''table_name'', JStr ''notes''), (''id'', JNum 7)]) world0))
       = [CallRun \<lparr>sql = ''UPDATE notes SET v2 = CURRENT_TIMESTAMP WHERE id = ?'', binds = [JNum 7]\<rparr>]
   \<and> split CHR '' '' ''UPDATE notes SET v2 = CURRENT_TIMESTAMP WHERE id = ?''
       = [''UPDATE'', ''notes'', ''SET'', ''v2'', ''='', ''CURRENT_TIMESTAMP'', ''WHERE'', ''id'', ''='', ''?'']"
proof -
  let ?p = "JObj [(''table_name'', JStr ''notes''), (''id'', JNum 7)]"
  have a: "resolveTableName ?p = Inr (Some ''notes'')"
    by code_simp
  have b: "\<not> nullish (field ?p ''id'') \<or> \<not> nullish (field ?p ''c1'')"
    by (simp add: field_def)
  have c: "filter (\<lambda>k. k \<notin> set [''table_name'', ''id'', ''c1'']) (keys ?p) = []"
    by (simp add: keys_def)
  have d: "set ''notes'' \<subseteq> set ''abcdefghijklmnopqrstuvwxyzABCDEFGHIJKLMNOPQRSTUVWXYZ0123456789_''"
    by simp
  have e: "field ?p ''id'' = JNum 7"
    by (simp add: field_def)
  note fact = put_touch_statement [OF a b c, of host0 store_ok world0]
  from fact [THEN conjunct1] fact [THEN conjunct2, rule_format, OF d] a
  show ?thesis
    by (simp add: e world0_def)
qed

text \<open>
  The claim as written fails in both halves. A table name that carries SQL of its own
  passes \<^verbatim>\<open>resolveTableName\<close>, and the statement of a request with no key to set then
  assigns c2 and, behind the comment mark, no longer v2. And on a store that answers as D1
  does, a statement that changes no row is followed by \<^verbatim>\<open>{ updated: undefined }\<close>, not
  by the not-found error: the program compares \<^verbatim>\<open>result.changes\<close>, which such a result
  does not have, with 0.
\<close>

theorem put_touch_or_not_found_fails:
  "calls (snd (handleApiRequest host0 store_ok (JStr ''put'')
                (JObj [(''table_name'', JStr ''notes SET c2 = c3 WHERE id = ? --''), (''id'', JNum 7)])
                \<lparr>calls = [], console = [], deferred = 0\<rparr>))
     = [CallRun \<lparr>sql = ''UPDATE notes SET c2 = c3 WHERE id = ? -- SET v2 = CURRENT_TIMESTAMP WHERE id = ?'',
                 binds = [JNum 7]\<rparr>]
   \<and> db_run (store_rows 0) []
        \<lparr>sql = ''UPDATE notes SET v2 = CURRENT_TIMESTAMP WHERE id = ?'', binds = [JNum 999]\<rparr>
     = Inr \<lparr>results = JArr [], meta = JObj [(''changes'', JNum 0)], changes = JUndefined\<rparr>
   \<and> handleApiRequest host0 (store_rows 0) (JStr ''put'')
        (JObj [(''table_name'', JStr ''notes''), (''id'', JNum 999)])
        \<lparr>calls = [], console = [], deferred = 0\<rparr>
     = (Inr (JObj [(''updated'', JUndefined)]),
        \<lparr>calls = [CallRun \<lparr>sql = ''UPDATE notes SET v2 = CURRENT_TIMESTAMP WHERE id = ?'',
                           binds = [JNum 999]\<rparr>],
         console = [], deferred = 0\<rparr>)"
  by code_simp

text \<open>
  Claim C9, as the code has it. For a \<^verbatim>\<open>put\<close> request that reaches its case, let the keys
  to set be the payload's keys other than \<^verbatim>\<open>table_name\<close>, \<^verbatim>\<open>id\<close> and \<^verbatim>\<open>c1\<close>; \<^verbatim>\<open>c1\<close> is never
  one of them. If the request names the row and every key to set is a column, it submits
  exactly one statement: the text UPDATE, the table name as resolved, SET, an assignment
  for each key to set, in order, then that of v2, and the WHERE clause; its values are
  those of the keys to set followed by the identifying value; and when \<^verbatim>\<open>id\<close> is given the
  WHERE clause and the last value use \<^verbatim>\<open>id\<close>, whatever \<^verbatim>\<open>c1\<close> the payload carries. The
  table name enters the text as it is; when it consists of letters, digits and underscores
  only, the words of the text are UPDATE, the table name, SET, then key, = and ?, for each
  key to set, then v2, =, CURRENT_TIMESTAMP, WHERE, the identifying column, = and ?, so
  that the columns assigned are the keys to set and v2, and c1 is none of them. A request
  that does not name the row, or has a key to set that is no column, submits nothing.
\<close>

theorem put_never_sets_c1:
  assumes "resolveTableName payload = Inr (Some tableName)"
    and "ks = filter (\<lambda>k. k \<notin> set [''table_name'', ''id'', ''c1'']) (keys payload)"
  shows "''c1'' \<notin> set ks
       \<and> (if (\<not> nullish (field payload ''id'') \<or> \<not> nullish (field payload ''c1''))
              \<and> (\<forall>k \<in> set ks. k \<in> set allowedColumns)
          then calls (snd (handleApiRequest h db (JStr ''put'') payload w))
               = calls w @
                 [CallRun \<lparr>sql = ''UPDATE '' @ tableName @ '' SET '' @ concat (map (\<lambda>k. k @ '' = ?, '') ks)
                                @ ''v2 = CURRENT_TIMESTAMP WHERE ''
                                @ (if \<not> nullish (field payload ''id'') then ''id = ?'' else ''c1 = ?''),
                           binds = map (field (normalizeJsonColumns h payload)) ks
                                   @ [if \<not> nullish (field payload ''id'') then field payload ''id''
                                      else field payload ''c1'']\<rparr>]
               \<and> (set tableName \<subseteq> set ''abcdefghijklmnopqrstuvwxyzABCDEFGHIJKLMNOPQRSTUVWXYZ0123456789_''
                  \<longrightarrow> split CHR '' '' (''UPDATE '' @ tableName @ '' SET ''
                                        @ concat (map (\<lambda>k. k @ '' = ?, '') ks)
                                        @ ''v2 = CURRENT_TIMESTAMP WHERE ''
                                        @ (if \<not> nullish (field payload ''id'') then ''id = ?''
                                           else ''c1 = ?''))
                      = [''UPDATE'', tableName, ''SET''] @ concat (map (\<lambda>k. [k, ''='', ''?,'']) ks)
                        @ [''v2'', ''='', ''CURRENT_TIMESTAMP'', ''WHERE'',
                           if \<not> nullish (field payload ''id'') then ''id'' else ''c1'', ''='', ''?''])
          else calls (snd (handleApiRequest h db (JStr ''put'') payload w)) = calls w)"
proof -
  let ?hasId = "\<not> nullish (field payload ''id'')"
  let ?ok = "(?hasId \<or> \<not> nullish (field payload ''c1'')) \<and> (\<forall>k \<in> set ks. k \<in> set allowedColumns)"
  let ?st = "putStatement tableName (normalizeJsonColumns h payload) ?hasId ks"
  note put = handleApiRequest_put(1) [OF assms(1), of h db w]
  have c1: "''c1'' \<notin> set ks"
    using assms(2) by simp
  have shape: "?st = \<lparr>sql = ''UPDATE '' @ tableName @ '' SET '' @ concat (map (\<lambda>k. k @ '' = ?, '') ks)
                                @ ''v2 = CURRENT_TIMESTAMP WHERE ''
                                @ (if ?hasId then ''id = ?'' else ''c1 = ?''),
                           binds = map (field (normalizeJsonColumns h payload)) ks
                                   @ [if ?hasId then field payload ''id'' else field payload ''c1'']\<rparr>"
    unfolding putStatement_text by (simp add: field_normalizeJsonColumns_other)
  show ?thesis
  proof (cases ?ok)
    case True
    then have "case_put h db tableName payload w =
           (case db_run db (calls w) ?st of
              Inl e \<Rightarrow> Inl e
            | Inr r \<Rightarrow> if changes r = JNum 0 then Inr (error_obj ''Record not found or no rows updated'')
                       else Inr (JObj [(''updated'', changes r)]),
            w\<lparr>calls := calls w @ [CallRun ?st]\<rparr>)"
      using case_put_accepted [where t = tableName and h = h and db = db and w = w and payload = payload,
                               OF _ _ refl]
      unfolding assms(2) by blast
    with put have submitted: "calls (snd (handleApiRequest h db (JStr ''put'') payload w))
                              = calls w @ [CallRun ?st]"
      by simp
    from True have cols: "\<forall>k \<in> set ks. CHR '' '' \<notin> set k"
      using column_no_space by blast
    have words: "split CHR '' '' (''UPDATE '' @ tableName @ '' SET ''
                                        @ concat (map (\<lambda>k. k @ '' = ?, '') ks)
                                        @ ''v2 = CURRENT_TIMESTAMP WHERE ''
                                        @ (if ?hasId then ''id = ?'' else ''c1 = ?''))
                      = [''UPDATE'', tableName, ''SET''] @ concat (map (\<lambda>k. [k, ''='', ''?,'']) ks)
                        @ [''v2'', ''='', ''CURRENT_TIMESTAMP'', ''WHERE'',
                           if ?hasId then ''id'' else ''c1'', ''='', ''?'']"
      if "set tableName \<subseteq> set ''abcdefghijklmnopqrstuvwxyzABCDEFGHIJKLMNOPQRSTUVWXYZ0123456789_''"
      using plain_no_space [OF that] cols by (rule split_put_text)
    from submitted have issued: "calls (snd (handleApiRequest h db (JStr ''put'') payload w))
               = calls w @
                 [CallRun \<lparr>sql = ''UPDATE '' @ tableName @ '' SET '' @ concat (map (\<lambda>k. k @ '' = ?, '') ks)
                                @ ''v2 = CURRENT_TIMESTAMP WHERE ''
                                @ (if ?hasId then ''id = ?'' else ''c1 = ?''),
                           binds = map (field (normalizeJsonColumns h payload)) ks
                                   @ [if ?hasId then field payload ''id'' else field payload ''c1'']\<rparr>]"
      unfolding shape .
    show ?thesis
      unfolding if_P [OF True]
      by (intro conjI impI) (fact c1, fact issued, erule words)

  next
    case False
    then have "snd (case_put h db tableName payload w) = w"
      using case_put_rejected [of payload h db tableName w] unfolding assms(2) by blast
    with put have "calls (snd (handleApiRequest h db (JStr ''put'') payload w)) = calls w"
      by simp
    with False c1 show ?thesis by simp
  qed
qed

theorem put_never_sets_c1_witness:
  "resolveTableName (JObj [(''table_name'', JStr ''notes''), (''id'', JNum 5), (''c1'', JStr ''k''),
                           (''c2'', JStr ''new'')]) = Inr (Some ''notes'')
   \<and> calls (snd (handleApiRequest host0 store_ok (JStr ''put'')
                  (JObj [(''table_name'', JStr ''notes''), (''id'', JNum 5), (''c1'', JStr ''k''),
                         (''c2'', JStr ''new'')]) world0))
       = [CallRun \<lparr>sql = ''UPDATE notes SET c2 = ?, v2 = CURRENT_TIMESTAMP WHERE id = ?'',
                   binds = [JStr ''new'', JNum 5]\<rparr>]
   \<and> split CHR '' '' ''UPDATE notes SET c2 = ?, v2 = CURRENT_TIMESTAMP WHERE id = ?''
       = [''UPDATE'', ''notes'', ''SET'', ''c2'', ''='', ''?,'', ''v2'', ''='', ''CURRENT_TIMESTAMP'',
          ''WHERE'', ''id'', ''='', ''?'']"
proof -
  let ?p = "JObj [(''table_name'', JStr ''notes''), (''id'', JNum 5), (''c1'', JStr ''k''),
                  (''c2'', JStr ''new'')]"
  have a: "resolveTableName ?p = Inr (Some ''notes'')"
    by code_simp
  have b: "[''c2''] = filter (\<lambda>k. k \<notin> set [''table_name'', ''id'', ''c1'']) (keys ?p)"
    by (simp add: keys_def)
  have c: "(\<not> nullish (field ?p ''id'') \<or> \<not> nullish (field ?p ''c1''))
           \<and> (\<forall>k \<in> set [''c2'']. k \<in> set allowedColumns)"
    by (simp add: field_def allowedColumns_def)
  have d: "field ?p ''id'' = JNum 5"
    by (simp add: field_def)
  have e: "field (normalizeJsonColumns host0 ?p) ''c2'' = JStr ''new''"
    by code_simp
  have f: "set ''notes'' \<subseteq> set ''abcdefghijklmnopqrstuvwxyzABCDEFGHIJKLMNOPQRSTUVWXYZ0123456789_''"
    by simp
  from put_never_sets_c1 [OF a b, of host0 store_ok world0] c a f
  show ?thesis
    by (simp add: d e world0_def)
qed

text \<open>
  The claim as written fails: a table name that carries SQL of its own passes
  \<^verbatim>\<open>resolveTableName\<close>, and the statement then assigns c1.
\<close>

theorem put_sets_c1_through_table_name:
  "resolveTableName (JObj [(''table_name'', JStr ''notes SET c1 = c2 WHERE id = ? --''), (''id'', JNum 5)])
     = Inr (Some ''notes SET c1 = c2 WHERE id = ? --'')
   \<and> calls (snd (handleApiRequest host0 store_ok (JStr ''put'')
                (JObj [(''table_name'', JStr ''notes SET c1 = c2 WHERE id = ? --''), (''id'', JNum 5)])
                \<lparr>calls = [], console = [], deferred = 0\<rparr>))
     = [CallRun \<lparr>sql = ''UPDATE notes SET c1 = c2 WHERE id = ? -- SET v2 = CURRENT_TIMESTAMP WHERE id = ?'',
                 binds = [JNum 5]\<rparr>]"
  by code_simp

text \<open>
  Claim C10. An \<^verbatim>\<open>update_c1\<close> request that reaches its case with a falsy \<^verbatim>\<open>id\<close> or a falsy
  \<^verbatim>\<open>new_c1\<close> (absent, null, 0, the empty string, false) returns the error
  "Missing id or new_c1" and leaves the world as it was. A \<^verbatim>\<open>put\<close> request with
  \<^verbatim>\<open>id\<close> equal to 0 and columns only among its other keys, in contrast, runs its statement:
  the text ends with WHERE id = ? and the last value bound is 0.
\<close>

theorem update_c1_needs_truthy_id:
  assumes "resolveTableName payload = Inr (Some tableName)"
  shows "(\<not> truthy (field payload ''id'') \<or> \<not> truthy (field payload ''new_c1'')
          \<longrightarrow> handleApiRequest h db (JStr ''update_c1'') payload w
              = (Inr (error_obj ''Missing id or new_c1''), w))
       \<and> (field payload ''id'' = JNum 0
           \<and> (\<forall>k \<in> set (filter (\<lambda>k. k \<notin> set [''table_name'', ''id'', ''c1'']) (keys payload)).
                 k \<in> set allowedColumns)
          \<longrightarrow> (\<exists>s base. calls (snd (handleApiRequest h db (JStr ''put'') payload w)) = calls w @ [CallRun s]
                        \<and> sql s = base @ '' WHERE id = ?'' \<and> last (binds s) = JNum 0))"
proof -
  let ?ks = "filter (\<lambda>k. k \<notin> set [''table_name'', ''id'', ''c1'']) (keys payload)"
  let ?st = "putStatement tableName (normalizeJsonColumns h payload) True ?ks"
  have rejected: "handleApiRequest h db (JStr ''update_c1'') payload w
                  = (Inr (error_obj ''Missing id or new_c1''), w)"
    if "\<not> truthy (field payload ''id'') \<or> \<not> truthy (field payload ''new_c1'')"
  proof -
    from that have "case_update_c1 db tableName payload w = (Inr (error_obj ''Missing id or new_c1''), w)"
      by (auto simp: case_update_c1_def)
    then show ?thesis
      using assms by (simp add: handleApiRequest_resolved switch_action_def)
  qed
  have accepted: "\<exists>s base. calls (snd (handleApiRequest h db (JStr ''put'') payload w)) = calls w @ [CallRun s]
                        \<and> sql s = base @ '' WHERE id = ?'' \<and> last (binds s) = JNum 0"
    if zero: "field payload ''id'' = JNum 0" and cols: "\<forall>k \<in> set ?ks. k \<in> set allowedColumns"
  proof -
    from zero have hasId: "\<not> nullish (field payload ''id'')" by simp
    then have "\<not> nullish (field payload ''id'') \<or> \<not> nullish (field payload ''c1'')" ..
    from case_put_accepted [where t = tableName and h = h and db = db and w = w, OF this cols refl] hasId
    have "calls (snd (case_put h db tableName payload w)) = calls w @ [CallRun ?st]"
      by simp
    then have "calls (snd (handleApiRequest h db (JStr ''put'') payload w)) = calls w @ [CallRun ?st]"
      using handleApiRequest_put(1) [OF assms, of h db w] by simp
    moreover have "sql ?st = (''UPDATE '' @ tableName @ '' SET '' @ concat (map (\<lambda>k. k @ '' = ?, '') ?ks)
                                @ ''v2 = CURRENT_TIMESTAMP'') @ '' WHERE id = ?''"
      unfolding putStatement_text by simp
    moreover have "last (binds ?st) = JNum 0"
      unfolding putStatement_text using zero by (simp add: field_normalizeJsonColumns_other)
    ultimately show ?thesis by blast
  qed
  from rejected accepted show ?thesis by blast
qed

theorem update_c1_needs_truthy_id_witness:
  "resolveTableName (JObj [(''table_name'', JStr ''notes''), (''id'', JNum 0), (''c2'', JStr ''y'')])
     = Inr (Some ''notes'')
   \<and> handleApiRequest host0 store_ok (JStr ''update_c1'')
        (JObj [(''table_name'', JStr ''notes''), (''id'', JNum 0), (''c2'', JStr ''y'')]) world0
       = (Inr (error_obj ''Missing id or new_c1''), world0)
   \<and> (\<exists>s base. calls (snd (handleApiRequest host0 store_ok (JStr ''put'')
                    (JObj [(''table_name'', JStr ''notes''), (''id'', JNum 0), (''c2'', JStr ''y'')]) world0))
                  = calls world0 @ [CallRun s]
                \<and> sql s = base @ '' WHERE id = ?'' \<and> last (binds s) = JNum 0)"
proof -
  let ?p = "JObj [(''table_name'', JStr ''notes''), (''id'', JNum 0), (''c2'', JStr ''y'')]"
  have a: "resolveTableName ?p = Inr (Some ''notes'')"
    by code_simp
  have b: "\<not> truthy (field ?p ''id'') \<or> \<not> truthy (field ?p ''new_c1'')"
    by (simp add: field_def)
  have c: "field ?p ''id'' = JNum 0
           \<and> (\<forall>k \<in> set (filter (\<lambda>k. k \<notin> set [''table_name'', ''id'', ''c1'']) (keys ?p)).
                 k \<in> set allowedColumns)"
    by (simp add: field_def keys_def allowedColumns_def)
  note fact = update_c1_needs_truthy_id [OF a, of host0 store_ok world0]
  from fact [THEN conjunct1, rule_format, OF b] fact [THEN conjunct2, rule_format, OF c] a
  show ?thesis
    by (intro conjI)
qed

section \<open>Renaming c1\<close>

text \<open>
  Claim C6. Take an \<^verbatim>\<open>update_c1\<close> request that reaches its statement (table name
  resolved, \<^verbatim>\<open>id\<close> and \<^verbatim>\<open>new_c1\<close> truthy) and a store that throws on it. If the message
  contains UNIQUE the result is the error "c1 already exists" and nothing is reported.
  Otherwise the error leaves the case, is caught by the handler, reported as
  "DB operation failed: ..." and returned as an error result carrying the store's own
  message.
\<close>

theorem update_c1_storage_errors:
  assumes "resolveTableName payload = Inr (Some tableName)"
    and "truthy (field payload ''id'')" and "truthy (field payload ''new_c1'')"
    and "st = \<lparr>sql = ''UPDATE '' @ tableName @ '' SET c1 = ?, v2 = CURRENT_TIMESTAMP WHERE id = ?'',
               binds = [field payload ''new_c1'', field payload ''id'']\<rparr>"
    and "db_run db (calls w) st = Inl msg"
  shows "handleApiRequest h db (JStr ''update_c1'') payload w =
           (if sublist ''UNIQUE'' msg
            then (Inr (error_obj ''c1 already exists''), w\<lparr>calls := calls w @ [CallRun st]\<rparr>)
            else (Inr (error_obj msg),
                  w\<lparr>calls := calls w @ [CallRun st],
                    console := console w @ [''DB operation failed: '' @ msg],
                    deferred := Suc (deferred w)\<rparr>))"
proof -
  have "case_update_c1 db tableName payload w =
          (if sublist ''UNIQUE'' msg then Inr (error_obj ''c1 already exists'') else Inl msg,
           w\<lparr>calls := calls w @ [CallRun st]\<rparr>)"
    using assms(2-5)
    by (simp add: case_update_c1_def Let_def run_def bind_def prepare_def str_includes_sublist)
  then show ?thesis
    using assms(1)
    by (simp add: handleApiRequest_resolved switch_action_def errDelegate_def)
qed

theorem update_c1_storage_errors_witness:
  "resolveTableName (JObj [(''table_name'', JStr ''notes''), (''id'', JNum 3), (''new_c1'', JStr ''k'')])
     = Inr (Some ''notes'')
   \<and> sublist ''UNIQUE'' ''UNIQUE constraint failed: notes.c1''
   \<and> fst (handleApiRequest host0 (store_failing ''UNIQUE constraint failed: notes.c1'') (JStr ''update_c1'')
             (JObj [(''table_name'', JStr ''notes''), (''id'', JNum 3), (''new_c1'', JStr ''k'')]) world0)
       = Inr (error_obj ''c1 already exists'')"
proof -
  let ?p = "JObj [(''table_name'', JStr ''notes''), (''id'', JNum 3), (''new_c1'', JStr ''k'')]"
  let ?st = "\<lparr>sql = ''UPDATE '' @ ''notes'' @ '' SET c1 = ?, v2 = CURRENT_TIMESTAMP WHERE id = ?'',
               binds = [field ?p ''new_c1'', field ?p ''id'']\<rparr>"
  have a: "resolveTableName ?p = Inr (Some ''notes'')"
    by code_simp
  have b: "truthy (field ?p ''id'')" and c: "truthy (field ?p ''new_c1'')"
    by (simp_all add: field_def)
  have d: "db_run (store_failing ''UNIQUE constraint failed: notes.c1'') (calls world0) ?st
           = Inl ''UNIQUE constraint failed: notes.c1''"
    by (simp add: store_failing_def)
  have e: "sublist ''UNIQUE'' ''UNIQUE constraint failed: notes.c1''"
    unfolding str_includes_sublist [symmetric] by code_simp
  from update_c1_storage_errors [OF a b c refl d, of host0] a e
  show ?thesis
    by simp
qed

section \<open>Querying\<close>

text \<open>
  Claim C5. A \<^verbatim>\<open>get\<close> request that reaches its case and passes its checks (every key is
  a query option or a column, and \<^verbatim>\<open>minId\<close> and \<^verbatim>\<open>offset\<close> are not both given) runs exactly
  one query, whose text ends with LIMIT followed by the decimal digits of the limit the
  specification describes: \<^verbatim>\<open>payload.limit\<close> when it is an integer from 1 to 500, 500 when
  it is a larger integer, 100 in every other case. A request that fails a check runs no
  query.
\<close>

theorem get_row_limit:
  assumes "resolveTableName payload = Inr (Some tableName)"
  shows "if (\<forall>k \<in> set (keys payload). k \<in> set allowedQueryOptions \<or> k \<in> set allowedColumns)
            \<and> (nullish (field payload ''minId'') \<or> nullish (field payload ''offset''))
         then \<exists>s base.
                calls (snd (handleApiRequest h db (JStr ''get'') payload w)) = calls w @ [CallAll s]
              \<and> sql s = base @ '' LIMIT '' @ dec_nat (spec_limit (field payload ''limit''))
         else calls (snd (handleApiRequest h db (JStr ''get'') payload w)) = calls w"
proof -
  let ?options = "JObj (filter (\<lambda>(k, v). k \<noteq> ''table_name'') (own_entries payload))"
  let ?cf = "filter (\<lambda>k. k \<notin> set allowedQueryOptions) (keys payload)"
  let ?valid = "(\<forall>k \<in> set (keys payload). k \<in> set allowedQueryOptions \<or> k \<in> set allowedColumns)
                \<and> (nullish (field payload ''minId'') \<or> nullish (field payload ''offset''))"
  have calls_eq: "calls (snd (handleApiRequest h db (JStr ''get'') payload w))
                  = calls (snd (case_get h db tableName payload w))"
    using assms by (simp add: handleApiRequest_calls switch_action_def)
  have valid: "(find (\<lambda>k. k \<notin> set allowedColumns) ?cf = None)
               = (\<forall>k \<in> set (keys payload). k \<in> set allowedQueryOptions \<or> k \<in> set allowedColumns)"
    by (auto simp: find_None_iff)
  have opts: "field ?options ''minId'' = field payload ''minId''"
             "field ?options ''offset'' = field payload ''offset''"
             "field ?options ''limit'' = field payload ''limit''"
    by (simp_all add: field_options)
  obtain base where st: "sql (getStatement h tableName ?options ?cf)
     = base @ '' LIMIT '' @ dec_nat (spec_limit (field payload ''limit''))"
    using getStatement_sql [of h tableName ?options ?cf] opts limit_text by auto
  show ?thesis
  proof (cases ?valid)
    case True
    then have "find (\<lambda>k. k \<notin> set allowedColumns) ?cf = None"
      using valid by simp
    with True have "calls (snd (case_get h db tableName payload w))
                    = calls w @ [CallAll (getStatement h tableName ?options ?cf)]"
      unfolding case_get_def Let_def columnFilters_of_payload opts
      by (auto simp: all_def split: sum.splits)
    with st calls_eq have "\<exists>s base.
                calls (snd (handleApiRequest h db (JStr ''get'') payload w)) = calls w @ [CallAll s]
              \<and> sql s = base @ '' LIMIT '' @ dec_nat (spec_limit (field payload ''limit''))"
      by (intro exI [of _ "getStatement h tableName ?options ?cf"] exI [of _ base] conjI)
         (simp_all only:)
    with True show ?thesis by simp
  next
    case False
    then have "calls (snd (case_get h db tableName payload w)) = calls w"
      unfolding case_get_def Let_def columnFilters_of_payload opts
      using valid by (auto split: option.splits)
    with False calls_eq show ?thesis by simp
  qed
qed

theorem get_row_limit_witness:
  "resolveTableName (JObj [(''table_name'', JStr ''notes''), (''limit'', JNum 1000)]) = Inr (Some ''notes'')
   \<and> (\<exists>s base. calls (snd (handleApiRequest host0 store_ok (JStr ''get'')
                    (JObj [(''table_name'', JStr ''notes''), (''limit'', JNum 1000)]) world0))
                  = calls world0 @ [CallAll s]
                \<and> sql s = base @ '' LIMIT 500'')"
proof -
  let ?p = "JObj [(''table_name'', JStr ''notes''), (''limit'', JNum 1000)]"
  have a: "resolveTableName ?p = Inr (Some ''notes'')"
    by code_simp
  have b: "(\<forall>k \<in> set (keys ?p). k \<in> set allowedQueryOptions \<or> k \<in> set allowedColumns)
           \<and> (nullish (field ?p ''minId'') \<or> nullish (field ?p ''offset''))"
    by (simp add: keys_def field_def allowedQueryOptions_def)
  have c: "dec_nat (spec_limit (field ?p ''limit'')) = ''500''"
    by code_simp
  from get_row_limit [OF a, of host0 store_ok world0] b c a
  show ?thesis
    by simp
qed

section \<open>Batch insert\<close>

text \<open>
  Claim C1 wants a \<^verbatim>\<open>batch_post\<close> request with a record that holds a key outside the
  column allow-list to be rejected with an error before any insert is submitted. The
  program does otherwise. The record below holds the key \<^verbatim>\<open>bogus\<close>, which is no column:
  \<^verbatim>\<open>batch_post\<close> drops the key, submits the insert of what is left and reports one row
  inserted, whereas \<^verbatim>\<open>post\<close> answers the same record with "Invalid columns: bogus" and
  submits nothing.
\<close>

theorem batch_post_accepts_unknown_key:
  "''bogus'' \<in> set (keys (JObj [(''c1'', JStr ''a''), (''bogus'', JNum 1)]))
   \<and> ''bogus'' \<notin> set allowedColumns
   \<and> handleApiRequest host0 store_ok (JStr ''batch_post'')
        (JObj [(''table_name'', JStr ''notes''),
               (''data'', JArr [JObj [(''c1'', JStr ''a''), (''bogus'', JNum 1)]])])
        \<lparr>calls = [], console = [], deferred = 0\<rparr>
     = (Inr (JObj [(''inserted'', JNum 1)]),
        \<lparr>calls = [CallBatch [\<lparr>sql = ''INSERT INTO notes (c1) VALUES (?)'', binds = [JStr ''a'']\<rparr>]],
         console = [], deferred = 0\<rparr>)
   \<and> handleApiRequest host0 store_ok (JStr ''post'')
        (JObj [(''table_name'', JStr ''notes''), (''c1'', JStr ''a''), (''bogus'', JNum 1)])
        \<lparr>calls = [], console = [], deferred = 0\<rparr>
     = (Inr (JObj [(''error'', JStr ''Invalid columns: bogus'')]),
        \<lparr>calls = [], console = [], deferred = 0\<rparr>)"
  by code_simp

section \<open>The envelope\<close>




end
